theory Spec2Isabelle
  imports Main "HOL-Library.Word"
begin

unbundle bit_operations_syntax

section \<open>Data model (src/types/game.types.ts)\<close>

datatype CoinSide = heads | tails

datatype RoomStatus = waiting | full | playing | completed

section \<open>SHA-256 and hexadecimal text\<close>

text \<open>
  The service hashes with Node's \<open>createHash('sha256').update(text).digest('hex')\<close>.
  The library function is the SHA-256 of FIPS 180-4 over the bytes of the text,
  printed as 64 lower-case hexadecimal digits. A \<open>string\<close> is the byte sequence that
  \<open>update\<close> hashes.
\<close>

type_synonym u32 = "32 word"

record sha_state =
  ha :: u32
  hb :: u32
  hc :: u32
  hd' :: u32
  he :: u32
  hf :: u32
  hg :: u32
  hh :: u32

text \<open>The round constants and the initial hash value of FIPS 180-4, section 4.2.2 and 5.3.3,
  in decimal.\<close>

definition sha_K :: "u32 list" where
  "sha_K =
    [1116352408, 1899447441, 3049323471, 3921009573, 961987163, 1508970993, 2453635748, 2870763221,
     3624381080, 310598401, 607225278, 1426881987, 1925078388, 2162078206, 2614888103, 3248222580,
     3835390401, 4022224774, 264347078, 604807628, 770255983, 1249150122, 1555081692, 1996064986,
     2554220882, 2821834349, 2952996808, 3210313671, 3336571891, 3584528711, 113926993, 338241895,
     666307205, 773529912, 1294757372, 1396182291, 1695183700, 1986661051, 2177026350, 2456956037,
     2730485921, 2820302411, 3259730800, 3345764771, 3516065817, 3600352804, 4094571909, 275423344,
     430227734, 506948616, 659060556, 883997877, 958139571, 1322822218, 1537002063, 1747873779,
     1955562222, 2024104815, 2227730452, 2361852424, 2428436474, 2756734187, 3204031479, 3329325298]"

definition sha_init :: sha_state where
  "sha_init = \<lparr>ha = 1779033703, hb = 3144134277, hc = 1013904242, hd' = 2773480762,
               he = 1359893119, hf = 2600822924, hg = 528734635, hh = 1541459225\<rparr>"

definition rotr :: "nat \<Rightarrow> u32 \<Rightarrow> u32" where
  "rotr n x = (drop_bit n x) OR (push_bit (32 - n) x)"

definition big_sigma0 :: "u32 \<Rightarrow> u32" where
  "big_sigma0 x = rotr 2 x XOR rotr 13 x XOR rotr 22 x"

definition big_sigma1 :: "u32 \<Rightarrow> u32" where
  "big_sigma1 x = rotr 6 x XOR rotr 11 x XOR rotr 25 x"

definition small_sigma0 :: "u32 \<Rightarrow> u32" where
  "small_sigma0 x = rotr 7 x XOR rotr 18 x XOR drop_bit 3 x"

definition small_sigma1 :: "u32 \<Rightarrow> u32" where
  "small_sigma1 x = rotr 17 x XOR rotr 19 x XOR drop_bit 10 x"

definition sha_ch :: "u32 \<Rightarrow> u32 \<Rightarrow> u32 \<Rightarrow> u32" where
  "sha_ch x y z = (x AND y) XOR (NOT x AND z)"

definition sha_maj :: "u32 \<Rightarrow> u32 \<Rightarrow> u32 \<Rightarrow> u32" where
  "sha_maj x y z = (x AND y) XOR (x AND z) XOR (y AND z)"

text \<open>Padding: the byte 0x80, zero bytes up to 56 modulo 64, the bit length in 8 bytes.\<close>

definition be_bytes :: "nat \<Rightarrow> nat \<Rightarrow> nat list" where
  "be_bytes k v = map (\<lambda>i. (v div 256 ^ (k - 1 - i)) mod 256) [0..<k]"

definition sha_pad :: "nat list \<Rightarrow> nat list" where
  "sha_pad bs =
     bs @ [128] @ replicate ((119 - length bs mod 64) mod 64) 0
        @ be_bytes 8 ((8 * length bs) mod 2 ^ 64)"

fun be_words :: "nat list \<Rightarrow> u32 list" where
  "be_words (b0 # b1 # b2 # b3 # bs) =
     word_of_nat (((b0 * 256 + b1) * 256 + b2) * 256 + b3) # be_words bs"
| "be_words _ = []"

fun sha_blocks :: "nat \<Rightarrow> u32 list \<Rightarrow> u32 list list" where
  "sha_blocks 0 ws = []"
| "sha_blocks (Suc n) ws = take 16 ws # sha_blocks n (drop 16 ws)"

text \<open>The message schedule: 16 words of the block, extended to 64.\<close>

fun sha_schedule :: "nat \<Rightarrow> u32 list \<Rightarrow> u32 list" where
  "sha_schedule 0 w = w"
| "sha_schedule (Suc k) w =
     (let t = length w in
      sha_schedule k
        (w @ [small_sigma1 (w ! (t - 2)) + w ! (t - 7)
              + small_sigma0 (w ! (t - 15)) + w ! (t - 16)]))"

definition sha_round :: "sha_state \<Rightarrow> u32 \<times> u32 \<Rightarrow> sha_state" where
  "sha_round s kw =
     (let t1 = hh s + big_sigma1 (he s) + sha_ch (he s) (hf s) (hg s) + fst kw + snd kw;
          t2 = big_sigma0 (ha s) + sha_maj (ha s) (hb s) (hc s)
      in \<lparr>ha = t1 + t2, hb = ha s, hc = hb s, hd' = hc s,
          he = hd' s + t1, hf = he s, hg = hf s, hh = hg s\<rparr>)"

definition sha_compress :: "sha_state \<Rightarrow> u32 list \<Rightarrow> sha_state" where
  "sha_compress s block =
     (let r = foldl sha_round s (zip sha_K (sha_schedule 48 block))
      in \<lparr>ha = ha s + ha r, hb = hb s + hb r, hc = hc s + hc r, hd' = hd' s + hd' r,
          he = he s + he r, hf = hf s + hf r, hg = hg s + hg r, hh = hh s + hh r\<rparr>)"

definition sha256 :: "string \<Rightarrow> sha_state" where
  "sha256 text =
     (let ws = be_words (sha_pad (map of_char text))
      in foldl sha_compress sha_init (sha_blocks (length ws div 16) ws))"

definition hex_digit :: "nat \<Rightarrow> char" where
  "hex_digit d = ''0123456789abcdef'' ! (d mod 16)"

definition hex32 :: "u32 \<Rightarrow> string" where
  "hex32 w = map (\<lambda>i. hex_digit (unat w div 16 ^ (7 - i))) [0..<8]"

definition digest_hex :: "sha_state \<Rightarrow> string" where
  "digest_hex s = hex32 (ha s) @ hex32 (hb s) @ hex32 (hc s) @ hex32 (hd' s)
                @ hex32 (he s) @ hex32 (hf s) @ hex32 (hg s) @ hex32 (hh s)"

definition sha256_hex :: "string \<Rightarrow> string" where
  "sha256_hex text = digest_hex (sha256 text)"

section \<open>ProvablyFairService (provably-fair.service.ts)\<close>

record ProvablyFairResult =
  result :: CoinSide
  serverSeed :: string
  clientSeed :: string
  nonce :: nat
  hash :: string
  isVerifiable :: bool

text \<open>
  \<open>randomBytes(k).toString('hex')\<close>: two lower-case hexadecimal digits per byte. The
  bytes drawn from the generator are an input of the model.
\<close>

definition hex_byte :: "8 word \<Rightarrow> string" where
  "hex_byte b = [hex_digit (unat b div 16), hex_digit (unat b)]"

definition generateServerSeed :: "8 word list \<Rightarrow> string" where
  "generateServerSeed randomBytes32 = concat (map hex_byte randomBytes32)"

definition generateClientSeed :: "8 word list \<Rightarrow> string" where
  "generateClientSeed randomBytes16 = concat (map hex_byte randomBytes16)"

definition hashServerSeed :: "string \<Rightarrow> string" where
  "hashServerSeed seed = sha256_hex seed"

text \<open>
  The template literal renders the nonce, a JavaScript number, with the language's
  Number-to-string conversion (ECMA-262, Number::toString, radix 10). A number is a
  double; the model takes the nonce as a natural number \<open>n\<close>, which stands for the
  Number value nearest to it (\<open>js_number n\<close>, what the literal \<open>n\<close> denotes). Every
  integer below \<open>2 ^ 53\<close> is a Number and prints all its decimal digits. From \<open>2 ^ 53\<close>
  on the conversion prints the shortest digits that read back as the same Number,
  followed by zeros, and from \<open>10 ^ 21\<close> on it prints them in exponent form
  (\<open>1e+21\<close>); a literal too large for a double is \<open>Infinity\<close>.
\<close>

definition digit_char :: "nat \<Rightarrow> char" where
  "digit_char d = ''0123456789'' ! (d mod 10)"

fun decimal_digits :: "nat \<Rightarrow> string" where
  "decimal_digits n =
     (if n < 10 then [digit_char n] else decimal_digits (n div 10) @ [digit_char n])"

declare decimal_digits.simps [simp del]

fun bit_length :: "nat \<Rightarrow> nat" where
  "bit_length n = (if n = 0 then 0 else Suc (bit_length (n div 2)))"

declare bit_length.simps [simp del]

text \<open>Rounding to the nearest double, ties to the even significand of 53 bits.\<close>

definition js_number :: "nat \<Rightarrow> nat" where
  "js_number n =
     (let e = bit_length n - 53; q = n div 2 ^ e; r = n mod 2 ^ e
      in if 2 * r < 2 ^ e \<or> (2 * r = 2 ^ e \<and> even q) then q * 2 ^ e else (q + 1) * 2 ^ e)"

text \<open>
  \<open>reads_back x v\<close>: the integer \<open>v\<close> rounds to the Number \<open>x\<close>. The neighbours of
  \<open>x = m * 2 ^ e\<close> are \<open>2 ^ e\<close> away, the lower one half of that when \<open>m = 2 ^ 52\<close>;
  a value half-way to a neighbour rounds to \<open>x\<close> when \<open>m\<close> is even.
\<close>

definition reads_back :: "nat \<Rightarrow> nat \<Rightarrow> bool" where
  "reads_back x v =
     (let e = bit_length x - 53; m = x div 2 ^ e;
          below = (if m = 2 ^ 52 then 2 ^ (e - 1) else 2 ^ e);
          above = 2 ^ e
      in if even m then 2 * x \<le> 2 * v + below \<and> 2 * v \<le> 2 * x + above
         else 2 * x < 2 * v + below \<and> 2 * v < 2 * x + above)"

text \<open>
  The shortest digits: the multiple of the largest power of ten that reads back as
  \<open>x\<close>, the one closest to \<open>x\<close> when two do. The result is that value and the
  number of zeros it ends with.
\<close>

fun shortest_digits :: "nat \<Rightarrow> nat \<Rightarrow> nat \<times> nat" where
  "shortest_digits x 0 = (x, 0)"
| "shortest_digits x (Suc j) =
     (let p = 10 ^ Suc j; c1 = (x div p) * p; c2 = c1 + p
      in if reads_back x c1 \<and> (\<not> reads_back x c2 \<or> x - c1 \<le> c2 - x) then (c1, Suc j)
         else if reads_back x c2 then (c2, Suc j)
         else shortest_digits x j)"

definition number_to_string :: "nat \<Rightarrow> string" where
  "number_to_string n =
     (if n < 2 ^ 53 then decimal_digits n
      else if 2 ^ 1024 - 2 ^ 970 \<le> n then ''Infinity''
      else (let x = js_number n;
                (v, j) = shortest_digits x (length (decimal_digits x));
                d = decimal_digits v;
                s = decimal_digits (v div 10 ^ j)
            in if length d \<le> 21 then d
               else if length s = 1 then s @ ''e+'' @ decimal_digits (length d - 1)
               else hd s # CHR ''.'' # tl s @ ''e+'' @ decimal_digits (length d - 1)))"

text \<open>Reading a decimal numeral back, to state what \<open>decimal_digits\<close> prints.\<close>

definition decimal_value :: "string \<Rightarrow> nat" where
  "decimal_value text = foldl (\<lambda>acc c. 10 * acc + (of_char c - 48)) 0 text"

text \<open>
  \<open>parseInt(text, 16)\<close>: the value of the longest prefix of hexadecimal digits, NaN
  (\<open>None\<close>) when that prefix is empty. Its argument here is a prefix of a digest, so the
  rules of \<open>parseInt\<close> for white space, a sign and a leading 0x are never reached and
  are left out.
\<close>

definition hex_value :: "char \<Rightarrow> nat option" where
  "hex_value c =
     (let k = (of_char c :: nat) in
      if 48 \<le> k \<and> k \<le> 57 then Some (k - 48)
      else if 97 \<le> k \<and> k \<le> 102 then Some (k - 87)
      else if 65 \<le> k \<and> k \<le> 70 then Some (k - 55)
      else None)"

definition parseInt16 :: "string \<Rightarrow> nat option" where
  "parseInt16 text =
     (let ds = takeWhile (\<lambda>c. hex_value c \<noteq> None) text in
      if ds = [] then None
      else Some (foldl (\<lambda>acc c. 16 * acc + the (hex_value c)) 0 ds))"

definition generateResult :: "string \<Rightarrow> string \<Rightarrow> nat \<Rightarrow> ProvablyFairResult" where
  "generateResult server_seed client_seed n =
     (let combinedInput = server_seed @ '':'' @ client_seed @ '':'' @ number_to_string n;
          h = sha256_hex combinedInput;
          hashInt = parseInt16 (take 8 h);
          r = (if (case hashInt of None \<Rightarrow> False | Some v \<Rightarrow> v mod 2 = 0)
               then heads else tails)
      in \<lparr>result = r, serverSeed = server_seed, clientSeed = client_seed, nonce = n,
          hash = h, isVerifiable = True\<rparr>)"





definition side_text :: "CoinSide \<Rightarrow> string" where
  "side_text s = (case s of heads \<Rightarrow> ''heads'' | tails \<Rightarrow> ''tails'')"



record verification_data =
  v_serverSeed :: string
  v_clientSeed :: string
  v_nonce :: nat
  verificationUrl :: string
  instructions :: "string list"

definition createVerificationData :: "string \<Rightarrow> string \<Rightarrow> nat \<Rightarrow> verification_data" where
  "createVerificationData server_seed client_seed n =
     \<lparr>v_serverSeed = server_seed, v_clientSeed = client_seed, v_nonce = n,
      verificationUrl = ''https://tools.pnxbet.com/fair/coinflip?server='' @ server_seed
        @ ''&client='' @ client_seed @ ''&nonce='' @ number_to_string n,
      instructions =
        [''1. Copy the server seed, client seed, and nonce'',
         ''2. Visit any provably fair verification tool'',
         ''3. Input the values to verify the result'',
         ''4. The result should match the game outcome'']\<rparr>"

section \<open>The store (database/schema.sql behind the Supabase client)\<close>

text \<open>
  Modelled from the spec: the Supabase client behind \<open>supabaseService.getClient()\<close>
  (supabase.service.ts and the database itself) is not among the sources. The
  specification's persistence collaborator is three tables with insert-with-return,
  select by equality, update by id, delete, and a cascading delete from a room to its
  players and games; the keys, the unique room code and the foreign keys are those of
  database/schema.sql. A call returns its error as a value and never throws.

  Rows are the interfaces of game.types.ts; the time stamps, which no operation reads,
  are left out. A UUID is modelled as a natural number drawn from a counter, stake and
  pot as whole dollars.
\<close>

type_synonym uuid = nat

record Room =
  r_id :: uuid
  r_code :: string
  r_creator_side :: CoinSide
  r_stake_amount :: nat
  r_total_pot :: nat
  r_status :: RoomStatus
  r_server_seed :: string
  r_client_seed :: "string option"
  r_nonce :: nat

record Player =
  p_id :: uuid
  p_room_id :: uuid
  p_socket_id :: string
  p_name :: string
  p_side :: CoinSide
  p_is_creator :: bool
  p_stake_amount :: nat
  p_has_paid :: bool

record Game =
  g_id :: uuid
  g_room_id :: uuid
  g_flip_result :: CoinSide
  g_winner_side :: CoinSide
  g_winner_player_id :: uuid
  g_total_pot :: nat
  g_server_seed :: string
  g_client_seed :: string
  g_nonce :: nat
  g_hash_result :: string
  g_is_verified :: bool

record database =
  rooms :: "Room list"
  players :: "Player list"
  games :: "Game list"
  next_uuid :: nat

definition empty_database :: database where
  "empty_database = \<lparr>rooms = [], players = [], games = [], next_uuid = 0\<rparr>"

text \<open>
  The service inspects the error of six store calls. A failure of the store (the
  network, the database) at one of them is an input of the model: \<open>fl c\<close> says that the
  call at \<open>c\<close> fails. The calls whose outcome the service ignores behave as the schema
  says.
\<close>

datatype store_call =
  CreateRoom_insert_room | CreateRoom_insert_player
  | JoinRoom_insert_player | JoinRoom_update_room
  | ResetRoom_update_room | FlipCoin_insert_game

type_synonym faults = "store_call \<Rightarrow> bool"

definition no_faults :: faults where
  "no_faults = (\<lambda>c. False)"

text \<open>\<open>.single()\<close>: the row when exactly one row matches, no data (and an error)
  otherwise.\<close>

definition single :: "'a list \<Rightarrow> 'a option" where
  "single rows = (case rows of [row] \<Rightarrow> Some row | _ \<Rightarrow> None)"

definition room_players :: "database \<Rightarrow> uuid \<Rightarrow> Player list" where
  "room_players db roomId = filter (\<lambda>p. p_room_id p = roomId) (players db)"

text \<open>
  Inserts give the row a fresh id. \<open>rooms.code\<close> is UNIQUE; \<open>players.room_id\<close>,
  \<open>games.room_id\<close> and \<open>games.winner_player_id\<close> are foreign keys.
\<close>

definition insert_rooms :: "bool \<Rightarrow> Room \<Rightarrow> database \<Rightarrow> (string + Room) \<times> database" where
  "insert_rooms fails row db =
     (if fails then (Inl ''store failure'', db)
      else if list_ex (\<lambda>r. r_code r = r_code row) (rooms db)
      then (Inl ''duplicate key value violates unique constraint'', db)
      else (let room = row\<lparr>r_id := next_uuid db\<rparr>
            in (Inr room, db\<lparr>rooms := rooms db @ [room], next_uuid := next_uuid db + 1\<rparr>)))"

definition insert_players :: "bool \<Rightarrow> Player \<Rightarrow> database \<Rightarrow> (string + Player) \<times> database" where
  "insert_players fails row db =
     (if fails then (Inl ''store failure'', db)
      else if \<not> list_ex (\<lambda>r. r_id r = p_room_id row) (rooms db)
      then (Inl ''violates foreign key constraint'', db)
      else (let player = row\<lparr>p_id := next_uuid db\<rparr>
            in (Inr player,
                db\<lparr>players := players db @ [player], next_uuid := next_uuid db + 1\<rparr>)))"

definition insert_games :: "bool \<Rightarrow> Game \<Rightarrow> database \<Rightarrow> (string + Game) \<times> database" where
  "insert_games fails row db =
     (if fails then (Inl ''store failure'', db)
      else if \<not> list_ex (\<lambda>r. r_id r = g_room_id row) (rooms db)
              \<or> \<not> list_ex (\<lambda>p. p_id p = g_winner_player_id row) (players db)
      then (Inl ''violates foreign key constraint'', db)
      else (let game = row\<lparr>g_id := next_uuid db\<rparr>
            in (Inr game, db\<lparr>games := games db @ [game], next_uuid := next_uuid db + 1\<rparr>)))"

definition update_rooms ::
  "bool \<Rightarrow> uuid \<Rightarrow> (Room \<Rightarrow> Room) \<Rightarrow> database \<Rightarrow> string option \<times> database" where
  "update_rooms fails roomId change db =
     (if fails then (Some ''store failure'', db)
      else (None, db\<lparr>rooms := map (\<lambda>r. if r_id r = roomId then change r else r) (rooms db)\<rparr>))"

text \<open>
  \<open>games.winner_player_id REFERENCES players(id)\<close> has no ON DELETE clause: a delete
  that would leave a game pointing at a deleted player is rejected as a whole, and the
  service does not look at the error. \<open>room_id ... ON DELETE CASCADE\<close> on players and
  games: deleting a room deletes its players and games in the same statement, and the
  reference to the winner is checked after the cascade.
\<close>

definition delete_players :: "string \<Rightarrow> database \<Rightarrow> database" where
  "delete_players socketId db =
     (let gone = filter (\<lambda>p. p_socket_id p = socketId) (players db)
      in if list_ex (\<lambda>g. g_winner_player_id g \<in> set (map p_id gone)) (games db) then db
         else db\<lparr>players := filter (\<lambda>p. p_socket_id p \<noteq> socketId) (players db)\<rparr>)"

definition delete_rooms :: "uuid \<Rightarrow> database \<Rightarrow> database" where
  "delete_rooms roomId db =
     (let gone = filter (\<lambda>p. p_room_id p = roomId) (players db);
          kept = filter (\<lambda>g. g_room_id g \<noteq> roomId) (games db)
      in if list_ex (\<lambda>g. g_winner_player_id g \<in> set (map p_id gone)) kept then db
         else db\<lparr>rooms := filter (\<lambda>r. r_id r \<noteq> roomId) (rooms db),
                 players := filter (\<lambda>p. p_room_id p \<noteq> roomId) (players db),
                 games := kept\<rparr>)"

section \<open>GameService (game.service.ts)\<close>

datatype error =
  DatabaseException string string
  | RoomFullException string
  | InvalidGameStateException string string
  | Error string

definition FIXED_STAKE :: nat where
  "FIXED_STAKE = 10"

definition TOTAL_POT :: nat where
  "TOTAL_POT = 20"

record CreateRoomDto =
  c_side :: CoinSide
  c_playerName :: "string option"

record JoinRoomDto =
  j_code :: string
  j_playerName :: "string option"

text \<open>\<open>dto.playerName || `Player ${socketId.substring(0, 4)}`\<close>: a missing or empty name
  gives the default.\<close>

definition player_name :: "string option \<Rightarrow> string \<Rightarrow> string" where
  "player_name given socketId =
     (case given of
        None \<Rightarrow> ''Player '' @ take 4 socketId
      | Some n \<Rightarrow> if n = [] then ''Player '' @ take 4 socketId else n)"

text \<open>
  \<open>generateRoomCode\<close>: six characters, each \<open>chars.charAt(Math.floor(Math.random() * 36))\<close>.
  The six indices drawn are an input of the model.
\<close>

definition generateRoomCode :: "(nat \<Rightarrow> nat) \<Rightarrow> string" where
  "generateRoomCode pick =
     map (\<lambda>i. ''ABCDEFGHIJKLMNOPQRSTUVWXYZ0123456789'' ! (pick i mod 36)) [0..<6]"

text \<open>The do-while loop of \<open>createRoom\<close>: at most ten draws, until a code is free.\<close>

function unique_room_code :: "database \<Rightarrow> (nat \<Rightarrow> nat \<Rightarrow> nat) \<Rightarrow> nat \<Rightarrow> error + string" where
  "unique_room_code db picks attempts =
     (if attempts \<ge> 10
      then Inl (DatabaseException ''room creation'' ''Unable to generate unique room code'')
      else (let roomCode = generateRoomCode (picks attempts);
                codeExists = (single (filter (\<lambda>r. r_code r = roomCode) (rooms db)) \<noteq> None)
            in if codeExists then unique_room_code db picks (attempts + 1) else Inr roomCode))"
  by pat_completeness auto
termination
  by (relation "measure (\<lambda>(db, picks, attempts). 10 - attempts)") auto

definition createRoom ::
  "faults \<Rightarrow> (nat \<Rightarrow> nat \<Rightarrow> nat) \<Rightarrow> 8 word list \<Rightarrow> CreateRoomDto \<Rightarrow> string \<Rightarrow> database
     \<Rightarrow> (error + Room) \<times> database" where
  "createRoom fl picks randomBytes32 createRoomDto socketId db =
     (let playerName = player_name (c_playerName createRoomDto) socketId in
      case unique_room_code db picks 0 of
        Inl e \<Rightarrow> (Inl e, db)
      | Inr roomCode \<Rightarrow>
          (let serverSeed = generateServerSeed randomBytes32 in
           case insert_rooms (fl CreateRoom_insert_room)
                  \<lparr>r_id = 0, r_code = roomCode, r_creator_side = c_side createRoomDto,
                   r_stake_amount = FIXED_STAKE, r_total_pot = TOTAL_POT, r_status = waiting,
                   r_server_seed = serverSeed, r_client_seed = None, r_nonce = 0\<rparr> db of
             (Inl msg, db1) \<Rightarrow> (Inl (DatabaseException ''room creation'' msg), db1)
           | (Inr room, db1) \<Rightarrow>
               (case insert_players (fl CreateRoom_insert_player)
                       \<lparr>p_id = 0, p_room_id = r_id room, p_socket_id = socketId,
                        p_name = playerName, p_side = c_side createRoomDto,
                        p_is_creator = True, p_stake_amount = FIXED_STAKE,
                        p_has_paid = True\<rparr> db1 of
                  (Inl msg, db2) \<Rightarrow>
                    (Inl (DatabaseException ''player creation'' msg),
                     delete_rooms (r_id room) db2)
                | (Inr player, db2) \<Rightarrow> (Inr room, db2))))"

definition joinRoom ::
  "faults \<Rightarrow> 8 word list \<Rightarrow> JoinRoomDto \<Rightarrow> string \<Rightarrow> database
     \<Rightarrow> (error + Room \<times> Player) \<times> database" where
  "joinRoom fl randomBytes16 joinRoomDto socketId db =
     (let playerName = player_name (j_playerName joinRoomDto) socketId in
      case single (filter (\<lambda>r. r_code r = j_code joinRoomDto \<and> r_status r = waiting) (rooms db)) of
        None \<Rightarrow> (Inl (Error ''Room not found or not available''), db)
      | Some room \<Rightarrow>
          (let existingPlayers = room_players db (r_id room) in
           if length existingPlayers \<ge> 2
           then (Inl (RoomFullException (j_code joinRoomDto)), db)
           else
             (let playerSide = (if r_creator_side room = heads then tails else heads) in
              if playerSide = r_creator_side room
              then (Inl (InvalidGameStateException
                          (''Both players have side '' @ side_text playerSide)
                          ''Players must have opposite sides''), db)
              else
                (let clientSeed = generateClientSeed randomBytes16 in
                 case insert_players (fl JoinRoom_insert_player)
                        \<lparr>p_id = 0, p_room_id = r_id room, p_socket_id = socketId,
                         p_name = playerName, p_side = playerSide, p_is_creator = False,
                         p_stake_amount = FIXED_STAKE, p_has_paid = True\<rparr> db of
                   (Inl msg, db1) \<Rightarrow> (Inl (Error (''Failed to join room: '' @ msg)), db1)
                 | (Inr player, db1) \<Rightarrow>
                     (case update_rooms (fl JoinRoom_update_room) (r_id room)
                             (\<lambda>r. r\<lparr>r_status := full, r_client_seed := Some clientSeed\<rparr>) db1 of
                        (Some msg, db2) \<Rightarrow>
                          (Inl (Error (''Failed to update room status: '' @ msg)), db2)
                      | (None, db2) \<Rightarrow>
                          (Inr (room\<lparr>r_status := full, r_client_seed := Some clientSeed\<rparr>,
                                player), db2))))))"

definition resetRoomForReplay :: "faults \<Rightarrow> uuid \<Rightarrow> database \<Rightarrow> (error + unit) \<times> database" where
  "resetRoomForReplay fl roomId db =
     (case update_rooms (fl ResetRoom_update_room) roomId (\<lambda>r. r\<lparr>r_status := full\<rparr>) db of
        (Some msg, db1) \<Rightarrow> (Inl (Error (''Failed to reset room for replay: '' @ msg)), db1)
      | (None, db1) \<Rightarrow> (Inr (), db1))"

record flip_outcome =
  f_result :: CoinSide
  f_winner :: CoinSide
  f_game :: Game
  f_verification :: verification_data
  f_winnerPlayer :: Player

text \<open>
  \<open>flipCoin\<close> in two parts: the room as read (and, for a completed room, reset and read
  again), then the resolution. \<open>!room.client_seed\<close> holds for a missing and for an empty
  seed. The players come in the order of the store's rows.
\<close>

definition flip_room :: "faults \<Rightarrow> uuid \<Rightarrow> database \<Rightarrow> (error + Room) \<times> database" where
  "flip_room fl roomId db =
     (case single (filter (\<lambda>r. r_id r = roomId \<and> (r_status r = full \<or> r_status r = completed))
                     (rooms db)) of
        None \<Rightarrow> (Inl (Error ''Room not found or not ready for game''), db)
      | Some room \<Rightarrow>
          if r_status room = completed
          then (case resetRoomForReplay fl roomId db of
                  (Inl e, db1) \<Rightarrow> (Inl e, db1)
                | (Inr u, db1) \<Rightarrow>
                    (case single (filter (\<lambda>r. r_id r = roomId) (rooms db1)) of
                       None \<Rightarrow> (Inr room, db1)
                     | Some updatedRoom \<Rightarrow> (Inr updatedRoom, db1)))
          else (Inr room, db))"

definition flipCoin :: "faults \<Rightarrow> uuid \<Rightarrow> database \<Rightarrow> (error + flip_outcome) \<times> database" where
  "flipCoin fl roomId db =
     (case flip_room fl roomId db of
        (Inl e, db1) \<Rightarrow> (Inl e, db1)
      | (Inr room, db1) \<Rightarrow>
          (case r_client_seed room of
             None \<Rightarrow> (Inl (Error ''Client seed not set - room not ready for play''), db1)
           | Some client_seed \<Rightarrow>
               if client_seed = []
               then (Inl (Error ''Client seed not set - room not ready for play''), db1)
               else
                 (let newNonce = r_nonce room + 1;
                      fairResult = generateResult (r_server_seed room) client_seed newNonce;
                      ps = room_players db1 roomId
                  in if length ps \<noteq> 2 then (Inl (Error ''Invalid player count for game''), db1)
                     else
                       (case find (\<lambda>p. p_side p = result fairResult) ps of
                          None \<Rightarrow> (Inl (Error ''Unable to determine winner''), db1)
                        | Some winnerPlayer \<Rightarrow>
                            (case insert_games (fl FlipCoin_insert_game)
                                    \<lparr>g_id = 0, g_room_id = roomId,
                                     g_flip_result = result fairResult,
                                     g_winner_side = result fairResult,
                                     g_winner_player_id = p_id winnerPlayer,
                                     g_total_pot = r_total_pot room,
                                     g_server_seed = r_server_seed room,
                                     g_client_seed = client_seed, g_nonce = newNonce,
                                     g_hash_result = hash fairResult,
                                     g_is_verified = True\<rparr> db1 of
                               (Inl msg, db2) \<Rightarrow>
                                 (Inl (Error (''Failed to create game: '' @ msg)), db2)
                             | (Inr game, db2) \<Rightarrow>
                                 (let db3 = snd (update_rooms False roomId
                                        (\<lambda>r. r\<lparr>r_status := completed, r_nonce := newNonce\<rparr>) db2)
                                  in (Inr \<lparr>f_result = result fairResult,
                                           f_winner = result fairResult, f_game = game,
                                           f_verification = createVerificationData
                                             (r_server_seed room) client_seed newNonce,
                                           f_winnerPlayer = winnerPlayer\<rparr>, db3)))))))"

definition removePlayer :: "string \<Rightarrow> database \<Rightarrow> database" where
  "removePlayer socketId db =
     (case single (filter (\<lambda>p. p_socket_id p = socketId) (players db)) of
        None \<Rightarrow> db
      | Some player \<Rightarrow>
          (let db1 = delete_players socketId db
           in if p_is_creator player then delete_rooms (p_room_id player) db1 else db1))"

text \<open>The states the service can bring an empty store to.\<close>

inductive reachable :: "database \<Rightarrow> bool" where
  reachable_empty: "reachable empty_database"
| reachable_createRoom:
    "reachable db \<Longrightarrow> reachable (snd (createRoom fl picks bytes dto socketId db))"
| reachable_joinRoom:
    "reachable db \<Longrightarrow> reachable (snd (joinRoom fl bytes jdto socketId db))"
| reachable_flipCoin:
    "reachable db \<Longrightarrow> reachable (snd (flipCoin fl roomId db))"
| reachable_removePlayer:
    "reachable db \<Longrightarrow> reachable (removePlayer socketId db)"

section \<open>Invariants and example stores\<close>


text \<open>A room with its creator (heads) and a joiner (tails), used as a concrete input.\<close>

definition demo_room :: "RoomStatus \<Rightarrow> nat \<Rightarrow> Room" where
  "demo_room st n =
     \<lparr>r_id = 0, r_code = ''ABCDEF'', r_creator_side = heads, r_stake_amount = 10,
      r_total_pot = 20, r_status = st, r_server_seed = ''010203'',
      r_client_seed = Some ''0708'', r_nonce = n\<rparr>"

definition demo_creator :: Player where
  "demo_creator =
     \<lparr>p_id = 1, p_room_id = 0, p_socket_id = ''sockA'', p_name = ''Player sock'',
      p_side = heads, p_is_creator = True, p_stake_amount = 10, p_has_paid = True\<rparr>"

definition demo_joiner :: Player where
  "demo_joiner =
     \<lparr>p_id = 2, p_room_id = 0, p_socket_id = ''sockB'', p_name = ''bob'',
      p_side = tails, p_is_creator = False, p_stake_amount = 10, p_has_paid = True\<rparr>"

definition demo_db :: "RoomStatus \<Rightarrow> nat \<Rightarrow> Game list \<Rightarrow> database" where
  "demo_db st n gs =
     \<lparr>rooms = [demo_room st n], players = [demo_creator, demo_joiner], games = gs,
      next_uuid = 3 + length gs\<rparr>"

text \<open>The same room with both players on one side, a store the service never builds.\<close>

definition demo_db_same_side :: "CoinSide \<Rightarrow> database" where
  "demo_db_same_side s =
     \<lparr>rooms = [demo_room full 0],
      players = [demo_creator\<lparr>p_side := s\<rparr>, demo_joiner\<lparr>p_side := s\<rparr>],
      games = [], next_uuid = 3\<rparr>"



text \<open>The game that the joiner of the example room has won, and the store after it.\<close>

definition demo_game :: Game where
  "demo_game =
     \<lparr>g_id = 3, g_room_id = 0, g_flip_result = tails, g_winner_side = tails,
      g_winner_player_id = 2, g_total_pot = 20, g_server_seed = ''010203'',
      g_client_seed = ''0708'', g_nonce = 1,
      g_hash_result = ''fd903a0d21634b15cda741a312c7a50f8f3b9d5f8cec2034fae0351ca7dcb8ef'',
      g_is_verified = True\<rparr>"

definition demo_db_played :: database where
  "demo_db_played = demo_db completed 1 [demo_game]"

text \<open>
  What the schema and the service keep true of every store, used to prove the players'
  invariant: keys are fresh and unique; the foreign keys hold; a player marked creator
  holds the room's creator side and any other player the opposite side, and a room has
  exactly one creator and at most one other player.
\<close>

definition keys_ok :: "database \<Rightarrow> bool" where
  "keys_ok db \<longleftrightarrow>
       (\<forall>r \<in> set (rooms db). r_id r < next_uuid db)
     \<and> distinct (map r_id (rooms db))
     \<and> (\<forall>p \<in> set (players db). p_id p < next_uuid db)
     \<and> distinct (map p_id (players db))"

definition refs_ok :: "database \<Rightarrow> bool" where
  "refs_ok db \<longleftrightarrow>
       (\<forall>p \<in> set (players db). p_room_id p \<in> set (map r_id (rooms db)))
     \<and> (\<forall>g \<in> set (games db). \<exists>p \<in> set (players db).
            p_id p = g_winner_player_id g \<and> p_room_id p = g_room_id g)"

definition sides_ok :: "database \<Rightarrow> bool" where
  "sides_ok db \<longleftrightarrow>
       (\<forall>r \<in> set (rooms db). \<forall>p \<in> set (players db).
            p_room_id p = r_id r \<longrightarrow> (p_is_creator p \<longleftrightarrow> p_side p = r_creator_side r))
     \<and> (\<forall>r \<in> set (rooms db). length (filter p_is_creator (room_players db (r_id r))) = 1)
     \<and> (\<forall>r \<in> set (rooms db).
            length (filter (\<lambda>p. \<not> p_is_creator p) (room_players db (r_id r))) \<le> 1)"

definition store_ok :: "database \<Rightarrow> bool" where
  "store_ok db \<longleftrightarrow> keys_ok db \<and> refs_ok db \<and> sides_ok db"

section \<open>The fairness engine\<close>

lemma hex_value_digit_upt: "\<forall>k \<in> set [0..<16]. hex_value (hex_digit k) = Some k"
  by (simp add: upt_rec hex_digit_def hex_value_def)

lemma hex_value_digit: "hex_value (hex_digit d) = Some (d mod 16)"
proof -
  have "d mod 16 \<in> set [0..<16]" by simp
  then have "hex_value (hex_digit (d mod 16)) = Some (d mod 16)"
    using hex_value_digit_upt by blast
  then show ?thesis by (simp add: hex_digit_def)
qed

lemma digit_step: "(x::nat) div 16 ^ k mod 16 + 16 * (x div 16 ^ Suc k) = x div 16 ^ k"
proof -
  have "x div (16 ^ k * 16) = x div 16 ^ k div 16"
    by (rule div_mult2_eq)
  then have "x div 16 ^ Suc k = x div 16 ^ k div 16"
    by (simp add: mult.commute)
  then show ?thesis by simp
qed

lemma length_hex32: "length (hex32 w) = 8"
  by (simp add: hex32_def)

lemma length_sha256_hex: "length (sha256_hex text) = 64"
  by (simp add: sha256_hex_def digest_hex_def length_hex32)

lemma take8_digest: "take 8 (digest_hex s) = hex32 (ha s)"
  by (simp add: digest_hex_def length_hex32)

lemma hex32_unfold: "hex32 w = map (\<lambda>k. hex_digit (unat w div 16 ^ k)) [7, 6, 5, 4, 3, 2, 1, 0]"
  by (simp add: hex32_def upt_rec)

lemma parse_digits:
  "parseInt16 (map (\<lambda>k. hex_digit (x div 16 ^ k)) (k0 # ks)) =
     Some (foldl (\<lambda>acc k. 16 * acc + x div 16 ^ k mod 16) 0 (k0 # ks))"
proof -
  have tw: "takeWhile (\<lambda>c. hex_value c \<noteq> None) (map (\<lambda>k. hex_digit (x div 16 ^ k)) js)
            = map (\<lambda>k. hex_digit (x div 16 ^ k)) js" for js
    by (induction js) (simp_all add: hex_value_digit)
  have fl: "foldl (\<lambda>acc c. 16 * acc + the (hex_value c)) v (map (\<lambda>k. hex_digit (x div 16 ^ k)) js)
            = foldl (\<lambda>acc k. 16 * acc + x div 16 ^ k mod 16) v js" for js v
    by (induction js arbitrary: v) (simp_all add: hex_value_digit)
  show ?thesis
    unfolding parseInt16_def Let_def tw fl by simp
qed

lemma parse_hex32: "parseInt16 (hex32 w) = Some (unat w)"
proof -
  define x where "x = unat w"
  define y where "y = (\<lambda>k. x div 16 ^ k)"
  define a where "a = (\<lambda>k. x div 16 ^ k mod 16)"
  have "x < 2 ^ 32" using unsigned_less[of w, where 'a=nat] by (simp add: x_def)
  then have y8: "y 8 = 0" by (simp add: y_def)
  have st: "\<And>k. a k + 16 * y (Suc k) = y k"
    unfolding a_def y_def by (rule digit_step)
  have y0: "y 0 = x" by (simp add: y_def)
  have e7: "16 * 0 + a 7 = y 7" using st[of 7] y8 by (simp add: eval_nat_numeral)
  have e6: "16 * y 7 + a 6 = y 6" using st[of 6] by (simp add: eval_nat_numeral)
  have e5: "16 * y 6 + a 5 = y 5" using st[of 5] by (simp add: eval_nat_numeral)
  have e4: "16 * y 5 + a 4 = y 4" using st[of 4] by (simp add: eval_nat_numeral)
  have e3: "16 * y 4 + a 3 = y 3" using st[of 3] by (simp add: eval_nat_numeral)
  have e2: "16 * y 3 + a 2 = y 2" using st[of 2] by (simp add: eval_nat_numeral)
  have e1: "16 * y 2 + a 1 = y 1" using st[of 1] by (simp add: eval_nat_numeral)
  have e0: "16 * y 1 + a 0 = y 0" using st[of 0] by simp
  have "16 * (16 * (16 * (16 * (16 * (16 * (16 * (16 * 0 + a 7) + a 6) + a 5) + a 4) + a 3) + a 2) + a 1) + a 0 = x"
    by (simp only: e7 e6 e5 e4 e3 e2 e1 e0 y0)
  then have "foldl (\<lambda>acc k. 16 * acc + a k) 0 [7, 6, 5, 4, 3, 2, 1, 0] = x"
    by simp
  then show ?thesis
    unfolding hex32_unfold x_def[symmetric] parse_digits a_def by simp
qed

lemma parse_digest_prefix: "parseInt16 (take 8 (sha256_hex text)) = Some (unat (ha (sha256 text)))"
  by (simp add: sha256_hex_def take8_digest parse_hex32)

lemma digit_char_upt: "\<forall>k \<in> set [0..<10]. (of_char (digit_char k) :: nat) - 48 = k"
  by (simp add: upt_rec digit_char_def)

lemma digit_char_value: "(of_char (digit_char d) :: nat) - 48 = d mod 10"
proof -
  have "d mod 10 \<in> set [0..<10]" by simp
  then have "(of_char (digit_char (d mod 10)) :: nat) - 48 = d mod 10"
    using digit_char_upt by blast
  then show ?thesis by (simp add: digit_char_def)
qed

lemma decimal_value_digits: "decimal_value (decimal_digits n) = n"
proof (induction n rule: decimal_digits.induct)
  case (1 n)
  show ?case
  proof (cases "n < 10")
    case True
    then show ?thesis
      by (subst decimal_digits.simps) (simp add: decimal_value_def digit_char_value)
  next
    case False
    then have "decimal_value (decimal_digits (n div 10)) = n div 10"
      using 1 by simp
    then show ?thesis
      using False
      by (subst decimal_digits.simps) (simp add: decimal_value_def digit_char_value)
  qed
qed


lemma number_to_string_exact: "n < 2 ^ 53 \<Longrightarrow> number_to_string n = decimal_digits n"
  by (simp add: number_to_string_def)


lemma result_from_digest:
  "result (generateResult s c n) =
     (if even (unat (ha (sha256 (s @ '':'' @ c @ '':'' @ number_to_string n)))) then heads else tails)"
  by (simp add: generateResult_def Let_def parse_digest_prefix mod_0_imp_dvd
     )

lemma hash_generateResult:
  "hash (generateResult s c n) = sha256_hex (s @ '':'' @ c @ '':'' @ number_to_string n)"
  by (simp add: generateResult_def Let_def)

subsection \<open>Digests of concrete texts\<close>

text \<open>Rules that let the simplifier run the definitions on numerals.\<close>

lemma replicate_num: "replicate (numeral n) x = x # replicate (pred_numeral n) x"
  by (simp add: numeral_eq_Suc)

lemma sha_schedule_num:
  "sha_schedule (numeral n) w =
     sha_schedule (pred_numeral n)
        (w @ [small_sigma1 (w ! (length w - 2)) + w ! (length w - 7)
              + small_sigma0 (w ! (length w - 15)) + w ! (length w - 16)])"
  by (simp add: numeral_eq_Suc Let_def)

lemma sha_blocks_num:
  "sha_blocks (numeral n) ws = take 16 ws # sha_blocks (pred_numeral n) (drop 16 ws)"
  by (simp add: numeral_eq_Suc)

lemma word_of_nat_take_bit_u32: "(word_of_nat (take_bit 32 m) :: u32) = word_of_nat m"
  by (simp add: word_of_nat_eq_iff)

lemma push_bit_u32:
  "push_bit n (numeral k :: u32) = word_of_nat (take_bit 32 (numeral k * 2 ^ n))"
  unfolding word_of_nat_take_bit_u32 by (simp add: push_bit_eq_mult)

lemma shortest_digits_num:
  "shortest_digits x (numeral k) =
     (let p = 10 ^ numeral k; c1 = (x div p) * p; c2 = c1 + p
      in if reads_back x c1 \<and> (\<not> reads_back x c2 \<or> x - c1 \<le> c2 - x) then (c1, numeral k)
         else if reads_back x c2 then (c2, numeral k)
         else shortest_digits x (pred_numeral k))"
  by (simp add: numeral_eq_Suc Let_def)

lemmas sha_eval =
  sha256_def sha_pad_def be_bytes_def sha_compress_def sha_round_def sha_init_def
  sha_K_def Let_def big_sigma0_def big_sigma1_def small_sigma0_def small_sigma1_def
  sha_ch_def sha_maj_def rotr_def
  upt_rec replicate_num sha_schedule_num sha_blocks_num push_bit_u32

lemmas hex_eval = sha256_hex_def digest_hex_def hex32_def hex_digit_def upt_rec

lemmas number_eval = number_to_string_def js_number_def reads_back_def shortest_digits_num
  decimal_digits.simps bit_length.simps digit_char_def Let_def

lemma sha256_a_b_1:
  "sha256 ''a:b:1'' =
     \<lparr>ha = 1825471671, hb = 2213284551, hc = 2399612654, hd' = 3519487708,
      he = 499525977, hf = 2836645809, hg = 2656255851, hh = 3805014509\<rparr>"
  by (simp add: sha_eval)

lemma sha256_hex_a_b_1:
  "sha256_hex ''a:b:1'' = ''6cce7cb783ec0ac78f072eeed1c71edc1dc62959a913c7b19e533f6be2cbe9ed''"
  by (simp add: sha256_a_b_1 hex_eval)

lemma sha256_a_b_1e21:
  "sha256 ''a:b:1e+21'' =
     \<lparr>ha = 143225876, hb = 1538040569, hc = 68382230, hd' = 556454927,
      he = 3838282821, hf = 3048988796, hg = 3061794992, hh = 2720282929\<rparr>"
  by (simp add: sha_eval)

lemma sha256_hex_a_b_1e21:
  "sha256_hex ''a:b:1e+21'' = ''088974145baca2f904136e16212ad40fe4c78c45b5bbe07cb67f48b0a2243931''"
  by (simp add: sha256_a_b_1e21 hex_eval)

lemma sha256_a_b_22_digits:
  "sha256 ''a:b:1000000000000000000000'' =
     \<lparr>ha = 3149711784, hb = 196789564, hc = 1279277826, hd' = 1928730108,
      he = 1357808788, hf = 3031169351, hg = 3484029586, hh = 2877370220\<rparr>"
  by (simp add: sha_eval)

lemma sha256_hex_a_b_22_digits:
  "sha256_hex ''a:b:1000000000000000000000''
     = ''bbbcc9a80bbac53c4c403b0272f615fc50ee8494b4abf947cfaa1292ab812f6c''"
  by (simp add: sha256_a_b_22_digits hex_eval)

lemma number_to_string_1e21: "number_to_string 1000000000000000000000 = ''1e+21''"
  by (simp add: number_eval)

lemma decimal_digits_1e21:
  "decimal_digits 1000000000000000000000 = ''1000000000000000000000''"
  by (simp add: decimal_digits.simps digit_char_def)

lemma decimal_digits_1: "decimal_digits 1 = ''1''"
  by (simp add: decimal_digits.simps digit_char_def)


subsection \<open>generateResult\<close>

text \<open>
  C1, the claim as stated fails for a large nonce. For the seeds \<open>a\<close> and \<open>b\<close> and the
  nonce \<open>10 ^ 21\<close> the template literal renders the nonce as \<open>1e+21\<close>: the hash returned
  is the digest of \<open>a:b:1e+21\<close>, which is not the digest of \<open>a:b:\<close> followed by the
  decimal rendering of the nonce.
\<close>

theorem generateResult_large_nonce_counterexample:
  "hash (generateResult ''a'' ''b'' 1000000000000000000000)
     = ''088974145baca2f904136e16212ad40fe4c78c45b5bbe07cb67f48b0a2243931''
   \<and> sha256_hex (''a'' @ '':'' @ ''b'' @ '':'' @ decimal_digits 1000000000000000000000)
     = ''bbbcc9a80bbac53c4c403b0272f615fc50ee8494b4abf947cfaa1292ab812f6c''
   \<and> hash (generateResult ''a'' ''b'' 1000000000000000000000)
     \<noteq> sha256_hex (''a'' @ '':'' @ ''b'' @ '':'' @ decimal_digits 1000000000000000000000)"
proof -
  have code: "hash (generateResult ''a'' ''b'' 1000000000000000000000)
     = ''088974145baca2f904136e16212ad40fe4c78c45b5bbe07cb67f48b0a2243931''"
    unfolding hash_generateResult number_to_string_1e21 using sha256_hex_a_b_1e21 by simp
  have claimed: "sha256_hex (''a'' @ '':'' @ ''b'' @ '':'' @ decimal_digits 1000000000000000000000)
     = ''bbbcc9a80bbac53c4c403b0272f615fc50ee8494b4abf947cfaa1292ab812f6c''"
    unfolding decimal_digits_1e21 using sha256_hex_a_b_22_digits by simp
  show ?thesis
    unfolding code claimed by simp
qed

text \<open>
  C1, amended. For every server seed \<open>s\<close>, client seed \<open>c\<close> and natural nonce \<open>n\<close>, the
  hash returned by \<open>generateResult\<close> is the SHA-256 hex digest of \<open>s:c:\<close> followed by
  the rendering of the number \<open>n\<close>, which is \<open>n\<close> in decimal for every \<open>n\<close> below
  \<open>2 ^ 53\<close>; the number parsed from the first 8 hex characters of that digest is the
  digest's first 32-bit word, and the side is heads exactly when that number is even,
  tails exactly when it is odd.
\<close>

theorem generateResult_spec:
  "hash (generateResult s c n) = sha256_hex (s @ '':'' @ c @ '':'' @ number_to_string n)
   \<and> (n < 2 ^ 53 \<longrightarrow>
        hash (generateResult s c n) = sha256_hex (s @ '':'' @ c @ '':'' @ decimal_digits n)
        \<and> decimal_value (decimal_digits n) = n)
   \<and> parseInt16 (take 8 (hash (generateResult s c n)))
       = Some (unat (ha (sha256 (s @ '':'' @ c @ '':'' @ number_to_string n))))
   \<and> unat (ha (sha256 (s @ '':'' @ c @ '':'' @ number_to_string n))) < 2 ^ 32
   \<and> (result (generateResult s c n) = heads
        \<longleftrightarrow> even (unat (ha (sha256 (s @ '':'' @ c @ '':'' @ number_to_string n)))))
   \<and> (result (generateResult s c n) = tails
        \<longleftrightarrow> odd (unat (ha (sha256 (s @ '':'' @ c @ '':'' @ number_to_string n)))))"
proof -
  have "unat (ha (sha256 (s @ '':'' @ c @ '':'' @ number_to_string n))) < 2 ^ 32"
    using unsigned_less[of "ha (sha256 (s @ '':'' @ c @ '':'' @ number_to_string n))", where 'a=nat]
    by simp
  moreover have "n < 2 ^ 53 \<longrightarrow>
        hash (generateResult s c n) = sha256_hex (s @ '':'' @ c @ '':'' @ decimal_digits n)"
    by (simp add: hash_generateResult number_to_string_exact)
  ultimately show ?thesis
    by (simp add: hash_generateResult result_from_digest parse_digest_prefix decimal_value_digits
       )
qed

theorem generateResult_spec_witness:
  "(1 :: nat) < 2 ^ 53
   \<and> hash (generateResult ''a'' ''b'' 1)
       = ''6cce7cb783ec0ac78f072eeed1c71edc1dc62959a913c7b19e533f6be2cbe9ed''
   \<and> parseInt16 (take 8 (hash (generateResult ''a'' ''b'' 1))) = Some 1825471671
   \<and> result (generateResult ''a'' ''b'' 1) = tails"
proof -
  have small: "(1 :: nat) < 2 ^ 53"
    by simp
  have rendering: "number_to_string 1 = ''1''"
    unfolding number_to_string_exact[OF small] by (rule decimal_digits_1)
  have input: "''a'' @ '':'' @ ''b'' @ '':'' @ number_to_string 1 = ''a:b:1''"
    unfolding rendering by simp
  have first_word: "unat (ha (sha256 ''a:b:1'')) = 1825471671"
    by (simp add: sha256_a_b_1)
  have parity: "odd (1825471671 :: nat)"
    by simp
  note spec = generateResult_spec[of "''a''" "''b''" 1, unfolded input sha256_hex_a_b_1 first_word]
  from spec small parity show ?thesis
    by blast
qed

subsection \<open>verifyResult\<close>



























section \<open>flipCoin\<close>

lemma single_Some_iff: "single rows = Some row \<longleftrightarrow> rows = [row]"
  by (auto simp: single_def split: list.splits)

lemma single_None_Nil: "single [] = None"
  by (simp add: single_def)

lemma filter_conj: "filter (\<lambda>x. P x \<and> Q x) xs = filter Q (filter P xs)"
  by (induction xs) auto

lemma insert_games_failed: "insert_games fails row db = (Inl msg, db') \<Longrightarrow> db' = db"
  by (auto simp: insert_games_def Let_def split: if_splits)

lemma insert_games_done:
  "insert_games fails row db = (Inr game, db') \<Longrightarrow>
     game = row\<lparr>g_id := next_uuid db\<rparr> \<and> games db' = games db @ [game]
     \<and> rooms db' = rooms db \<and> players db' = players db"
  by (auto simp: insert_games_def Let_def split: if_splits)

lemma flip_room_keeps:
  "games (snd (flip_room fl roomId db)) = games db"
  "players (snd (flip_room fl roomId db)) = players db"
  "next_uuid (snd (flip_room fl roomId db)) = next_uuid db"
  by (auto simp: flip_room_def resetRoomForReplay_def update_rooms_def
      split: option.splits sum.splits prod.splits if_splits)

lemma filter_id_map:
  assumes "\<And>r. r_id (change r) = r_id r"
  shows "filter (\<lambda>r. r_id r = roomId) (map (\<lambda>r. if r_id r = roomId then change r else r) rs)
           = map change (filter (\<lambda>r. r_id r = roomId) rs)"
  by (induction rs) (simp_all add: assms)

lemma flip_room_full:
  assumes "single (filter (\<lambda>r. r_id r = roomId) (rooms db)) = Some room"
    and "r_status room = full"
  shows "flip_room fl roomId db = (Inr room, db)"
proof -
  have "filter (\<lambda>r. r_id r = roomId) (rooms db) = [room]"
    using assms(1) by (simp add: single_Some_iff)
  then have "filter (\<lambda>r. r_id r = roomId \<and> (r_status r = full \<or> r_status r = completed)) (rooms db) = [room]"
    using assms(2) by (simp add: filter_conj)
  then show ?thesis
    using assms(2) by (simp add: flip_room_def single_def)
qed

lemma flip_room_completed:
  assumes "single (filter (\<lambda>r. r_id r = roomId) (rooms db)) = Some room"
    and "r_status room = completed"
    and "\<not> fl ResetRoom_update_room"
  shows "flip_room fl roomId db =
           (Inr (room\<lparr>r_status := full\<rparr>),
            db\<lparr>rooms := map (\<lambda>r. if r_id r = roomId then r\<lparr>r_status := full\<rparr> else r) (rooms db)\<rparr>)"
    and "resetRoomForReplay fl roomId db =
           (Inr (), db\<lparr>rooms := map (\<lambda>r. if r_id r = roomId then r\<lparr>r_status := full\<rparr> else r) (rooms db)\<rparr>)"
    and "single (filter (\<lambda>r. r_id r = roomId)
           (map (\<lambda>r. if r_id r = roomId then r\<lparr>r_status := full\<rparr> else r) (rooms db)))
          = Some (room\<lparr>r_status := full\<rparr>)"
proof -
  have one: "filter (\<lambda>r. r_id r = roomId) (rooms db) = [room]"
    using assms(1) by (simp add: single_Some_iff)
  then have sel: "filter (\<lambda>r. r_id r = roomId \<and> (r_status r = full \<or> r_status r = completed)) (rooms db) = [room]"
    using assms(2) by (simp add: filter_conj)
  have again: "filter (\<lambda>r. r_id r = roomId)
                 (map (\<lambda>r. if r_id r = roomId then r\<lparr>r_status := full\<rparr> else r) (rooms db))
               = [room\<lparr>r_status := full\<rparr>]"
    by (simp add: filter_id_map one)
  show reset: "resetRoomForReplay fl roomId db =
           (Inr (), db\<lparr>rooms := map (\<lambda>r. if r_id r = roomId then r\<lparr>r_status := full\<rparr> else r) (rooms db)\<rparr>)"
    using assms(3) by (simp add: resetRoomForReplay_def update_rooms_def)
  show "single (filter (\<lambda>r. r_id r = roomId)
           (map (\<lambda>r. if r_id r = roomId then r\<lparr>r_status := full\<rparr> else r) (rooms db)))
          = Some (room\<lparr>r_status := full\<rparr>)"
    by (simp add: again single_def)
  show "flip_room fl roomId db =
           (Inr (room\<lparr>r_status := full\<rparr>),
            db\<lparr>rooms := map (\<lambda>r. if r_id r = roomId then r\<lparr>r_status := full\<rparr> else r) (rooms db)\<rparr>)"
    using assms(2) by (simp add: flip_room_def sel reset again single_def)
qed

lemma find_two_sides:
  assumes "p_side p1 \<noteq> p_side p2"
  shows "find (\<lambda>p. p_side p = side) [p1, p2] = Some (if p_side p1 = side then p1 else p2)"
  using assms by (cases side; cases "p_side p1"; cases "p_side p2") simp_all

text \<open>The resolution of a flip once the room has been read.\<close>

lemma flipCoin_resolves:
  assumes room: "flip_room fl roomId db = (Inr room, db1)"
    and seed: "r_client_seed room = Some cs" "cs \<noteq> []"
    and two: "room_players db1 roomId = [p1, p2]"
    and sides: "p_side p1 \<noteq> p_side p2"
    and exists: "list_ex (\<lambda>r. r_id r = roomId) (rooms db1)"
    and ok: "\<not> fl FlipCoin_insert_game"
  defines "fair \<equiv> generateResult (r_server_seed room) cs (r_nonce room + 1)"
  defines "w \<equiv> (if p_side p1 = result fair then p1 else p2)"
  defines "g \<equiv> \<lparr>g_id = next_uuid db1, g_room_id = roomId, g_flip_result = result fair,
                  g_winner_side = result fair, g_winner_player_id = p_id w,
                  g_total_pot = r_total_pot room, g_server_seed = r_server_seed room,
                  g_client_seed = cs, g_nonce = r_nonce room + 1,
                  g_hash_result = hash fair, g_is_verified = True\<rparr>"
  shows "flipCoin fl roomId db =
           (Inr \<lparr>f_result = result fair, f_winner = result fair, f_game = g,
                 f_verification = createVerificationData (r_server_seed room) cs (r_nonce room + 1),
                 f_winnerPlayer = w\<rparr>,
            db1\<lparr>rooms := map (\<lambda>r. if r_id r = roomId
                                 then r\<lparr>r_status := completed, r_nonce := r_nonce room + 1\<rparr>
                                 else r) (rooms db1),
                games := games db1 @ [g], next_uuid := next_uuid db1 + 1\<rparr>)"
proof -
  have win: "find (\<lambda>p. p_side p = result fair) [p1, p2] = Some w"
    unfolding w_def by (rule find_two_sides[OF sides])
  have "w = p1 \<or> w = p2"
    by (simp add: w_def)
  moreover have "set [p1, p2] \<subseteq> set (players db1)"
    unfolding two[symmetric] room_players_def by (rule filter_is_subset)
  ultimately have fk: "list_ex (\<lambda>p. p_id p = p_id w) (players db1)"
    by (auto simp: list_ex_iff)
  show ?thesis
    unfolding flipCoin_def room prod.case sum.case seed option.case
    using seed(2) ok exists fk win
    by (simp add: two Let_def insert_games_def update_rooms_def g_def fair_def w_def)
qed

lemma demo_failed_insert:
  "flipCoin (no_faults(FlipCoin_insert_game := True)) 0 (demo_db completed n [])
     = (Inl (Error ''Failed to create game: store failure''), demo_db full n [])"
proof -
  let ?fl = "no_faults(FlipCoin_insert_game := True)"
  have sel: "single (filter (\<lambda>r. r_id r = 0) (rooms (demo_db completed n []))) = Some (demo_room completed n)"
    by (simp add: single_def demo_db_def demo_room_def)
  have st: "r_status (demo_room completed n) = completed"
    by (simp add: demo_room_def)
  have nf: "\<not> ?fl ResetRoom_update_room"
    by (simp add: no_faults_def)
  have "flip_room ?fl 0 (demo_db completed n []) =
          (Inr ((demo_room completed n)\<lparr>r_status := full\<rparr>),
           (demo_db completed n [])\<lparr>rooms := map (\<lambda>r. if r_id r = 0 then r\<lparr>r_status := full\<rparr> else r)
              (rooms (demo_db completed n []))\<rparr>)"
    by (rule flip_room_completed(1)[where roomId = 0 and db = "demo_db completed n []"
          and room = "demo_room completed n"
          and fl = "no_faults(FlipCoin_insert_game := True)", OF sel st nf])
  then have room: "flip_room ?fl 0 (demo_db completed n []) = (Inr (demo_room full n), demo_db full n [])"
    by (simp add: demo_db_def demo_room_def)
  have ps: "room_players (demo_db full n []) 0 = [demo_creator, demo_joiner]"
    by (simp add: room_players_def demo_db_def demo_creator_def demo_joiner_def)
  have seed: "r_client_seed (demo_room full n) = Some ''0708''"
    by (simp add: demo_room_def)
  have win: "find (\<lambda>p. p_side p = side) [demo_creator, demo_joiner]
              = Some (if p_side demo_creator = side then demo_creator else demo_joiner)" for side
    by (rule find_two_sides) (simp add: demo_creator_def demo_joiner_def)
  show ?thesis
    unfolding flipCoin_def room prod.case sum.case seed option.case ps Let_def win
    by (simp add: insert_games_def)
qed

text \<open>
  C10. Whenever \<open>flipCoin\<close> ends with an error, the games table is the one it started
  from: no Game record has been persisted by the call.
\<close>

theorem flipCoin_error_persists_no_game:
  assumes "flipCoin fl roomId db = (Inl e, db')"
  shows "games db' = games db"
proof (cases "flip_room fl roomId db")
  case (Pair r db1)
  have g1: "games db1 = games db"
    using flip_room_keeps(1)[of fl roomId db] Pair by simp
  show ?thesis
  proof (cases r)
    case (Inl e1)
    with assms Pair g1 show ?thesis
      by (simp add: flipCoin_def)
  next
    case (Inr room)
    with assms Pair g1 show ?thesis
      by (auto simp: flipCoin_def Let_def
          split: option.splits if_splits sum.splits prod.splits
          dest: insert_games_failed)
  qed
qed

text \<open>The witness is a replay whose game insert fails: the games table is unchanged,
  and the room has already been reset from completed to full.\<close>

theorem flipCoin_error_persists_no_game_witness:
  "flipCoin (no_faults(FlipCoin_insert_game := True)) 0 (demo_db completed 1 [])
     = (Inl (Error ''Failed to create game: store failure''), demo_db full 1 [])
   \<and> games (demo_db full 1 []) = games (demo_db completed 1 [])
   \<and> map r_status (rooms (demo_db completed 1 [])) = [completed]
   \<and> map r_status (rooms (demo_db full 1 [])) = [full]"
proof -
  have run: "flipCoin (no_faults(FlipCoin_insert_game := True)) 0 (demo_db completed 1 [])
     = (Inl (Error ''Failed to create game: store failure''), demo_db full 1 [])"
    by (rule demo_failed_insert)
  have before: "map r_status (rooms (demo_db completed 1 [])) = [completed]"
    by (simp add: demo_db_def demo_room_def)
  have after: "map r_status (rooms (demo_db full 1 [])) = [full]"
    by (simp add: demo_db_def demo_room_def)
  show ?thesis
    using run flipCoin_error_persists_no_game[OF run] before after
    by (intro conjI)
qed

text \<open>
  C5. For a room whose status is waiting, \<open>flipCoin\<close> fails with an error and leaves
  the store as it was: no result is computed, no Game record is created, and the
  room's status, nonce and seeds are unchanged.
\<close>

theorem flipCoin_waiting_room_fails:
  assumes "single (filter (\<lambda>r. r_id r = roomId) (rooms db)) = Some room"
    and "r_status room = waiting"
  shows "flipCoin fl roomId db = (Inl (Error ''Room not found or not ready for game''), db)"
proof -
  have "filter (\<lambda>r. r_id r = roomId) (rooms db) = [room]"
    using assms(1) by (simp add: single_Some_iff)
  then have "filter (\<lambda>r. r_id r = roomId \<and> (r_status r = full \<or> r_status r = completed)) (rooms db) = []"
    using assms(2) by (simp add: filter_conj)
  then show ?thesis
    by (simp add: flipCoin_def flip_room_def single_None_Nil)
qed

theorem flipCoin_waiting_room_fails_witness:
  "single (filter (\<lambda>r. r_id r = 0) (rooms (demo_db waiting 0 []))) = Some (demo_room waiting 0)
   \<and> r_status (demo_room waiting 0) = waiting
   \<and> flipCoin no_faults 0 (demo_db waiting 0 [])
       = (Inl (Error ''Room not found or not ready for game''), demo_db waiting 0 [])"
proof -
  have a: "single (filter (\<lambda>r. r_id r = 0) (rooms (demo_db waiting 0 []))) = Some (demo_room waiting 0)"
    by (simp add: single_def demo_db_def demo_room_def)
  have b: "r_status (demo_room waiting 0) = waiting"
    by (simp add: demo_room_def)
  show ?thesis
    using a b flipCoin_waiting_room_fails[OF a b, of no_faults] by simp
qed




lemma find_SomeD: "find P xs = Some x \<Longrightarrow> x \<in> set xs \<and> P x"
  by (induction xs) (auto split: if_splits)

lemma flip_room_source:
  assumes "flip_room fl roomId db = (Inr room, db1)"
  shows "\<exists>room0. room0 \<in> set (rooms db) \<and> r_id room0 = roomId
           \<and> r_server_seed room = r_server_seed room0
           \<and> r_client_seed room = r_client_seed room0
           \<and> r_nonce room = r_nonce room0"
proof (cases "single (filter (\<lambda>r. r_id r = roomId \<and> (r_status r = full \<or> r_status r = completed)) (rooms db))")
  case None
  with assms show ?thesis
    by (simp add: flip_room_def)
next
  case (Some sel)
  then have "sel \<in> set (filter (\<lambda>r. r_id r = roomId \<and> (r_status r = full \<or> r_status r = completed)) (rooms db))"
    by (simp add: single_Some_iff)
  then have sel: "sel \<in> set (rooms db)" "r_id sel = roomId"
    by simp_all
  show ?thesis
  proof (cases "r_status sel = completed \<and> \<not> fl ResetRoom_update_room")
    case False
    with assms Some have "room = sel"
      by (auto simp: flip_room_def resetRoomForReplay_def update_rooms_def split: if_splits)
    with sel show ?thesis by blast
  next
    case True
    let ?rs = "map (\<lambda>r. if r_id r = roomId then r\<lparr>r_status := full\<rparr> else r) (rooms db)"
    show ?thesis
    proof (cases "single (filter (\<lambda>r. r_id r = roomId) ?rs)")
      case None
      with assms Some True have "room = sel"
        by (simp add: flip_room_def resetRoomForReplay_def update_rooms_def)
      with sel show ?thesis by blast
    next
      case (Some u)
      with assms \<open>single _ = Some sel\<close> True have "room = u"
        by (simp add: flip_room_def resetRoomForReplay_def update_rooms_def)
      moreover from Some have "u \<in> set (filter (\<lambda>r. r_id r = roomId) ?rs)"
        by (simp add: single_Some_iff)
      then obtain r0 where "r0 \<in> set (rooms db)" "r_id r0 = roomId" "u = r0\<lparr>r_status := full\<rparr>"
        by (auto split: if_splits)
      ultimately show ?thesis
        by (intro exI[of _ r0]) simp
    qed
  qed
qed

lemma flipCoin_success_facts:
  assumes "flipCoin fl roomId db = (Inr out, db')"
  shows "g_winner_side (f_game out) = g_flip_result (f_game out)
       \<and> g_flip_result (f_game out) = f_result out
       \<and> f_winner out = f_result out
       \<and> f_game out \<in> set (games db')
       \<and> g_room_id (f_game out) = roomId
       \<and> f_winnerPlayer out \<in> set (room_players db roomId)
       \<and> p_side (f_winnerPlayer out) = f_result out
       \<and> g_winner_player_id (f_game out) = p_id (f_winnerPlayer out)
       \<and> (\<exists>room cs. room \<in> set (rooms db) \<and> r_id room = roomId
             \<and> r_client_seed room = Some cs
             \<and> f_result out = result (generateResult (r_server_seed room) cs (r_nonce room + 1)))"
proof (cases "flip_room fl roomId db")
  case (Pair r db1)
  have p1: "players db1 = players db"
    using flip_room_keeps(2)[of fl roomId db] Pair by simp
  show ?thesis
  proof (cases r)
    case (Inl e1)
    with assms Pair show ?thesis
      by (simp add: flipCoin_def)
  next
    case (Inr room)
    obtain room0 where src: "room0 \<in> set (rooms db)" "r_id room0 = roomId"
        "r_server_seed room = r_server_seed room0" "r_client_seed room = r_client_seed room0"
        "r_nonce room = r_nonce room0"
      using flip_room_source[of fl roomId db room db1] Pair Inr by auto
    from assms Pair Inr obtain cs w game db2 where
        seed: "r_client_seed room = Some cs"
      and win: "find (\<lambda>p. p_side p = result (generateResult (r_server_seed room) cs (r_nonce room + 1)))
                  (room_players db1 roomId) = Some w"
      and ins: "insert_games (fl FlipCoin_insert_game)
                  \<lparr>g_id = 0, g_room_id = roomId,
                   g_flip_result = result (generateResult (r_server_seed room) cs (r_nonce room + 1)),
                   g_winner_side = result (generateResult (r_server_seed room) cs (r_nonce room + 1)),
                   g_winner_player_id = p_id w, g_total_pot = r_total_pot room,
                   g_server_seed = r_server_seed room, g_client_seed = cs,
                   g_nonce = r_nonce room + 1,
                   g_hash_result = hash (generateResult (r_server_seed room) cs (r_nonce room + 1)),
                   g_is_verified = True\<rparr> db1 = (Inr game, db2)"
      and out: "out = \<lparr>f_result = result (generateResult (r_server_seed room) cs (r_nonce room + 1)),
                       f_winner = result (generateResult (r_server_seed room) cs (r_nonce room + 1)),
                       f_game = game,
                       f_verification = createVerificationData (r_server_seed room) cs (r_nonce room + 1),
                       f_winnerPlayer = w\<rparr>"
      and db': "db' = snd (update_rooms False roomId
                  (\<lambda>r. r\<lparr>r_status := completed, r_nonce := r_nonce room + 1\<rparr>) db2)"
      by (auto simp: flipCoin_def Let_def split: option.splits if_splits sum.splits prod.splits)
    have w: "w \<in> set (room_players db roomId)"
        "p_side w = result (generateResult (r_server_seed room) cs (r_nonce room + 1))"
      using find_SomeD[OF win] p1 by (simp_all add: room_players_def)
    note g = insert_games_done[OF ins]
    have "games db' = games db2"
      by (simp add: db' update_rooms_def)
    with g have "game \<in> set (games db')"
      by simp
    with g w src seed show ?thesis
      unfolding out by (intro conjI) (auto intro!: exI[of _ room0] exI[of _ cs])
  qed
qed

lemma other_side_differs: "(if x = heads then tails else heads) \<noteq> x"
  by (cases x) simp_all

lemma flipCoin_no_winner:
  assumes room: "flip_room fl roomId db = (Inr room, db1)"
    and seed: "r_client_seed room = Some cs" "cs \<noteq> []"
    and two: "room_players db roomId = [p1, p2]"
    and none: "p_side p1 \<noteq> result (generateResult (r_server_seed room) cs (r_nonce room + 1))"
        "p_side p2 \<noteq> result (generateResult (r_server_seed room) cs (r_nonce room + 1))"
  shows "flipCoin fl roomId db = (Inl (Error ''Unable to determine winner''), db1)"
proof -
  have "players db1 = players db"
    using flip_room_keeps(2)[of fl roomId db] room by simp
  then have two1: "room_players db1 roomId = [p1, p2]"
    using two by (simp add: room_players_def)
  show ?thesis
    unfolding flipCoin_def room prod.case sum.case seed option.case
    using seed(2) none by (simp add: two1 Let_def)
qed

lemma flipCoin_no_winner_ready:
  assumes room: "single (filter (\<lambda>r. r_id r = roomId) (rooms db)) = Some room"
    and status: "r_status room = full \<or> r_status room = completed \<and> \<not> fl ResetRoom_update_room"
    and seed: "r_client_seed room = Some cs" "cs \<noteq> []"
    and two: "room_players db roomId = [p1, p2]"
    and none: "p_side p1 \<noteq> result (generateResult (r_server_seed room) cs (r_nonce room + 1))"
        "p_side p2 \<noteq> result (generateResult (r_server_seed room) cs (r_nonce room + 1))"
  shows "\<exists>db1. flipCoin fl roomId db = (Inl (Error ''Unable to determine winner''), db1)
           \<and> games db1 = games db \<and> players db1 = players db"
proof -
  from status obtain room1 db1 where read: "flip_room fl roomId db = (Inr room1, db1)"
    and same: "r_server_seed room1 = r_server_seed room" "r_client_seed room1 = r_client_seed room"
      "r_nonce room1 = r_nonce room"
  proof (elim disjE conjE)
    assume "r_status room = full"
    from flip_room_full[OF room this, of fl] show ?thesis
      by (rule that) simp_all
  next
    assume "r_status room = completed" "\<not> fl ResetRoom_update_room"
    from flip_room_completed(1)[where fl = fl, OF room this] show ?thesis
      by (rule that) simp_all
  qed
  have "flipCoin fl roomId db = (Inl (Error ''Unable to determine winner''), db1)"
    using none by (intro flipCoin_no_winner[OF read _ seed(2) two]) (simp_all add: same seed)
  moreover have "games db1 = games db" "players db1 = players db"
    using flip_room_keeps(1,2)[of fl roomId db] read by simp_all
  ultimately show ?thesis
    by blast
qed

text \<open>
  C8. For every successful \<open>flipCoin\<close>, the persisted Game record's winner side equals
  its flip result, and the returned winner is a player of the room whose side equals
  the computed flip result. When a room that is full (or completed, with the reset
  accepted by the store) has its client seed and two players, and neither player's side
  equals the computed result, \<open>flipCoin\<close> fails with the error "Unable to determine
  winner" and persists no game.
\<close>

theorem flipCoin_winner:
  "(flipCoin fl roomId db = (Inr out, db') \<longrightarrow>
       g_winner_side (f_game out) = g_flip_result (f_game out)
     \<and> g_flip_result (f_game out) = f_result out
     \<and> f_winner out = f_result out
     \<and> f_game out \<in> set (games db')
     \<and> g_room_id (f_game out) = roomId
     \<and> f_winnerPlayer out \<in> set (room_players db roomId)
     \<and> p_side (f_winnerPlayer out) = f_result out
     \<and> g_winner_player_id (f_game out) = p_id (f_winnerPlayer out)
     \<and> (\<exists>room cs. room \<in> set (rooms db) \<and> r_id room = roomId
           \<and> r_client_seed room = Some cs
           \<and> f_result out = result (generateResult (r_server_seed room) cs (r_nonce room + 1))))
   \<and> (single (filter (\<lambda>r. r_id r = roomId) (rooms db)) = Some room
        \<and> (r_status room = full \<or> r_status room = completed \<and> \<not> fl ResetRoom_update_room)
        \<and> r_client_seed room = Some cs \<and> cs \<noteq> []
        \<and> room_players db roomId = [p1, p2]
        \<and> p_side p1 \<noteq> result (generateResult (r_server_seed room) cs (r_nonce room + 1))
        \<and> p_side p2 \<noteq> result (generateResult (r_server_seed room) cs (r_nonce room + 1))
      \<longrightarrow> (\<exists>db1. flipCoin fl roomId db = (Inl (Error ''Unable to determine winner''), db1)
             \<and> games db1 = games db \<and> players db1 = players db))"
  using flipCoin_success_facts[of fl roomId db out db']
    flipCoin_no_winner_ready[of roomId db room fl cs p1 p2]
  by blast

theorem flipCoin_winner_witness:
  "(\<exists>out db'. flipCoin no_faults 0 (demo_db full 0 []) = (Inr out, db')
      \<and> g_winner_side (f_game out) = g_flip_result (f_game out)
      \<and> f_game out \<in> set (games db')
      \<and> f_winnerPlayer out \<in> set (room_players (demo_db full 0 []) 0)
      \<and> p_side (f_winnerPlayer out) = f_result out)
   \<and> (\<exists>s. single (filter (\<lambda>r. r_id r = 0) (rooms (demo_db_same_side s)))
               = Some (demo_room full 0)
      \<and> r_status (demo_room full 0) = full
      \<and> r_client_seed (demo_room full 0) = Some ''0708'' \<and> ''0708'' \<noteq> []
      \<and> room_players (demo_db_same_side s) 0
           = [demo_creator\<lparr>p_side := s\<rparr>, demo_joiner\<lparr>p_side := s\<rparr>]
      \<and> s \<noteq> result (generateResult (r_server_seed (demo_room full 0)) ''0708''
                       (r_nonce (demo_room full 0) + 1))
      \<and> (\<exists>db1. flipCoin no_faults 0 (demo_db_same_side s)
                 = (Inl (Error ''Unable to determine winner''), db1)
             \<and> games db1 = games (demo_db_same_side s)))"
proof -
  have sel: "single (filter (\<lambda>r. r_id r = 0) (rooms (demo_db full 0 []))) = Some (demo_room full 0)"
    by (simp add: single_def demo_db_def demo_room_def)
  have st: "r_status (demo_room full 0) = full"
    by (simp add: demo_room_def)
  have seed: "r_client_seed (demo_room full 0) = Some ''0708''"
    by (simp add: demo_room_def)
  have ne: "''0708'' \<noteq> []"
    by simp
  have ps: "room_players (demo_db full 0 []) 0 = [demo_creator, demo_joiner]"
    by (simp add: room_players_def demo_db_def demo_creator_def demo_joiner_def)
  have sides: "p_side demo_creator \<noteq> p_side demo_joiner"
    by (simp add: demo_creator_def demo_joiner_def)
  have ex: "list_ex (\<lambda>r. r_id r = 0) (rooms (demo_db full 0 []))"
    by (simp add: demo_db_def demo_room_def)
  have nf: "\<not> no_faults FlipCoin_insert_game"
    by (simp add: no_faults_def)
  obtain out db' where run: "flipCoin no_faults 0 (demo_db full 0 []) = (Inr out, db')"
    using flipCoin_resolves[where fl = no_faults, OF flip_room_full[OF sel st] seed ne ps sides ex nf]
    by blast
  have first: "\<exists>out db'. flipCoin no_faults 0 (demo_db full 0 []) = (Inr out, db')
      \<and> g_winner_side (f_game out) = g_flip_result (f_game out)
      \<and> f_game out \<in> set (games db')
      \<and> f_winnerPlayer out \<in> set (room_players (demo_db full 0 []) 0)
      \<and> p_side (f_winnerPlayer out) = f_result out"
    using run flipCoin_winner[where fl = no_faults and roomId = 0 and db = "demo_db full 0 []"
        and out = out and db' = db', THEN conjunct1]
    by blast
  define s where "s = (if result (generateResult (r_server_seed (demo_room full 0)) ''0708''
                       (r_nonce (demo_room full 0) + 1)) = heads then tails else heads)"
  have sel2: "single (filter (\<lambda>r. r_id r = 0) (rooms (demo_db_same_side s))) = Some (demo_room full 0)"
    by (simp add: single_def demo_db_same_side_def demo_room_def)
  have ps2: "room_players (demo_db_same_side s) 0
           = [demo_creator\<lparr>p_side := s\<rparr>, demo_joiner\<lparr>p_side := s\<rparr>]"
    by (simp add: room_players_def demo_db_same_side_def demo_creator_def demo_joiner_def)
  have diff: "s \<noteq> result (generateResult (r_server_seed (demo_room full 0)) ''0708''
                       (r_nonce (demo_room full 0) + 1))"
    unfolding s_def by (rule other_side_differs)
  have fail: "\<exists>db1. flipCoin no_faults 0 (demo_db_same_side s)
                 = (Inl (Error ''Unable to determine winner''), db1)
             \<and> games db1 = games (demo_db_same_side s)"
    using flipCoin_winner[where fl = no_faults and roomId = 0 and db = "demo_db_same_side s"
        and room = "demo_room full 0" and cs = "''0708''"
        and ?p1.0 = "demo_creator\<lparr>p_side := s\<rparr>" and ?p2.0 = "demo_joiner\<lparr>p_side := s\<rparr>",
        THEN conjunct2] sel2 st seed ne ps2 diff
    by simp blast
  show ?thesis
    using first sel2 st seed ne ps2 diff fail by blast
qed

section \<open>joinRoom\<close>







section \<open>removePlayer\<close>

lemma removePlayer_unmatched:
  assumes "filter (\<lambda>p. p_socket_id p = socketId) (players db) = []"
  shows "removePlayer socketId db = db"
  using assms by (simp add: removePlayer_def single_def)

lemma removePlayer_ambiguous:
  assumes "length (filter (\<lambda>p. p_socket_id p = socketId) (players db)) \<ge> 2"
  shows "removePlayer socketId db = db"
proof -
  have "single (filter (\<lambda>p. p_socket_id p = socketId) (players db)) = None"
    using assms by (auto simp: single_def split: list.splits)
  then show ?thesis
    by (simp add: removePlayer_def)
qed

lemma delete_players_single:
  assumes "single (filter (\<lambda>p. p_socket_id p = socketId) (players db)) = Some player"
  shows "delete_players socketId db =
           (if list_ex (\<lambda>g. g_winner_player_id g = p_id player) (games db) then db
            else db\<lparr>players := filter (\<lambda>p. p_socket_id p \<noteq> socketId) (players db)\<rparr>)"
proof -
  have "filter (\<lambda>p. p_socket_id p = socketId) (players db) = [player]"
    using assms by (simp add: single_Some_iff)
  then show ?thesis
    unfolding delete_players_def Let_def by simp
qed

lemma removePlayer_other:
  assumes "single (filter (\<lambda>p. p_socket_id p = socketId) (players db)) = Some player"
    and "\<not> p_is_creator player"
  shows "removePlayer socketId db =
           (if list_ex (\<lambda>g. g_winner_player_id g = p_id player) (games db) then db
            else db\<lparr>players := filter (\<lambda>p. p_socket_id p \<noteq> socketId) (players db)\<rparr>)"
  unfolding removePlayer_def assms(1) option.case Let_def delete_players_single[OF assms(1)]
  using assms(2) by simp

section \<open>The players' invariant\<close>







subsection \<open>flipCoin keeps the store well-formed\<close>






subsection \<open>joinRoom keeps the store well-formed\<close>






subsection \<open>Deleting a room, and createRoom\<close>

lemma winner_not_in_room:
  assumes k: "keys_ok db" and r: "refs_ok db"
    and g: "g \<in> set (games db)" "g_room_id g \<noteq> roomId"
    and q: "q \<in> set (players db)" "p_room_id q = roomId"
  shows "g_winner_player_id g \<noteq> p_id q"
proof
  assume eq: "g_winner_player_id g = p_id q"
  from r g(1) obtain w where w: "w \<in> set (players db)" "p_id w = g_winner_player_id g"
      "p_room_id w = g_room_id g"
    by (auto simp: refs_ok_def)
  have "inj_on p_id (set (players db))"
    using k by (simp add: keys_ok_def distinct_map)
  with w(1,2) q(1) eq have "w = q"
    by (auto dest: inj_onD)
  with w(3) q(2) g(2) show False
    by simp
qed

lemma delete_rooms_effect:
  assumes k: "keys_ok db" and r: "refs_ok db"
    and sub: "set (players db1) \<subseteq> set (players db)" and same: "games db1 = games db"
  shows "delete_rooms roomId db1 =
           db1\<lparr>rooms := filter (\<lambda>r. r_id r \<noteq> roomId) (rooms db1),
                players := filter (\<lambda>p. p_room_id p \<noteq> roomId) (players db1),
                games := filter (\<lambda>g. g_room_id g \<noteq> roomId) (games db1)\<rparr>"
proof -
  have "\<not> list_ex (\<lambda>g. g_winner_player_id g
            \<in> set (map p_id (filter (\<lambda>p. p_room_id p = roomId) (players db1))))
          (filter (\<lambda>g. g_room_id g \<noteq> roomId) (games db1))"
    using winner_not_in_room[OF k r] sub same
    by (auto simp: list_ex_iff)
  then show ?thesis
    by (simp add: delete_rooms_def Let_def)
qed











subsection \<open>removePlayer keeps the store well-formed\<close>



lemma creator_removed_effect:
  assumes ok: "store_ok db"
    and sel: "filter (\<lambda>p. p_socket_id p = socketId) (players db) = [player]"
  shows "delete_rooms (p_room_id player) (delete_players socketId db)
           = db\<lparr>rooms := filter (\<lambda>r. r_id r \<noteq> p_room_id player) (rooms db),
                players := filter (\<lambda>p. p_room_id p \<noteq> p_room_id player) (players db),
                games := filter (\<lambda>g. g_room_id g \<noteq> p_room_id player) (games db)\<rparr>"
proof -
  from ok have k0: "keys_ok db" and r0: "refs_ok db"
    by (simp_all add: store_ok_def)
  let ?db1 = "delete_players socketId db"
  have d1: "?db1 = db \<or> ?db1 = db\<lparr>players := filter (\<lambda>p. p_socket_id p \<noteq> socketId) (players db)\<rparr>"
    by (simp add: delete_players_def Let_def)
  then have sub: "set (players ?db1) \<subseteq> set (players db)" and gs: "games ?db1 = games db"
    and rs: "rooms ?db1 = rooms db" and nx: "next_uuid ?db1 = next_uuid db"
    by auto
  have only: "p_room_id q = p_room_id player" if "q \<in> set (players db)" "p_socket_id q = socketId" for q
  proof -
    from that have "q \<in> set (filter (\<lambda>p. p_socket_id p = socketId) (players db))"
      by simp
    then show ?thesis
      unfolding sel by simp
  qed
  have "filter (\<lambda>p. p_room_id p \<noteq> p_room_id player)
            (filter (\<lambda>p. p_socket_id p \<noteq> socketId) (players db))
          = filter (\<lambda>p. p_room_id p \<noteq> p_room_id player) (players db)"
    unfolding filter_filter by (rule filter_cong) (auto dest: only)
  then have ps: "filter (\<lambda>p. p_room_id p \<noteq> p_room_id player) (players ?db1)
              = filter (\<lambda>p. p_room_id p \<noteq> p_room_id player) (players db)"
    using d1 by (elim disjE) simp_all
  have "delete_rooms (p_room_id player) ?db1 =
          ?db1\<lparr>rooms := filter (\<lambda>r. r_id r \<noteq> p_room_id player) (rooms ?db1),
                players := filter (\<lambda>p. p_room_id p \<noteq> p_room_id player) (players ?db1),
                games := filter (\<lambda>g. g_room_id g \<noteq> p_room_id player) (games ?db1)\<rparr>"
    by (rule delete_rooms_effect[OF k0 r0 sub gs])
  also have "\<dots> = db\<lparr>rooms := filter (\<lambda>r. r_id r \<noteq> p_room_id player) (rooms db),
                players := filter (\<lambda>p. p_room_id p \<noteq> p_room_id player) (players db),
                games := filter (\<lambda>g. g_room_id g \<noteq> p_room_id player) (games db)\<rparr>"
    unfolding ps gs rs by (simp add: delete_players_def Let_def)
  finally show ?thesis .
qed


subsection \<open>Every reachable store\<close>




section \<open>A reachable store in which the joiner has won\<close>

lemma unique_room_code_first:
  assumes "single (filter (\<lambda>r. r_code r = generateRoomCode (picks 0)) (rooms db)) = None"
  shows "unique_room_code db picks 0 = Inr (generateRoomCode (picks 0))"
  by (subst unique_room_code.simps) (simp add: assms del: unique_room_code.simps)

lemma first_room:
  "createRoom no_faults picks bytes \<lparr>c_side = s, c_playerName = None\<rparr> ''sockA'' empty_database
     = (Inr \<lparr>r_id = 0, r_code = generateRoomCode (picks 0), r_creator_side = s,
             r_stake_amount = 10, r_total_pot = 20, r_status = waiting,
             r_server_seed = generateServerSeed bytes, r_client_seed = None, r_nonce = 0\<rparr>,
        \<lparr>rooms = [\<lparr>r_id = 0, r_code = generateRoomCode (picks 0), r_creator_side = s,
                   r_stake_amount = 10, r_total_pot = 20, r_status = waiting,
                   r_server_seed = generateServerSeed bytes, r_client_seed = None,
                   r_nonce = 0\<rparr>],
         players = [\<lparr>p_id = 1, p_room_id = 0, p_socket_id = ''sockA'',
                     p_name = ''Player sock'', p_side = s, p_is_creator = True,
                     p_stake_amount = 10, p_has_paid = True\<rparr>],
         games = [], next_uuid = 2\<rparr>)"
proof -
  have code: "unique_room_code empty_database picks 0 = Inr (generateRoomCode (picks 0))"
    by (rule unique_room_code_first) (simp add: empty_database_def single_def)
  show ?thesis
    unfolding createRoom_def code sum.case
    by (simp add: empty_database_def insert_rooms_def insert_players_def no_faults_def
        player_name_def FIXED_STAKE_def TOTAL_POT_def Let_def del: unique_room_code.simps)
qed


lemma second_player:
  "joinRoom no_faults bytes16 \<lparr>j_code = code, j_playerName = None\<rparr> ''sockB''
     \<lparr>rooms = [\<lparr>r_id = 0, r_code = code, r_creator_side = s,
                r_stake_amount = 10, r_total_pot = 20, r_status = waiting,
                r_server_seed = seed, r_client_seed = None, r_nonce = 0\<rparr>],
      players = [\<lparr>p_id = 1, p_room_id = 0, p_socket_id = ''sockA'',
                  p_name = ''Player sock'', p_side = s, p_is_creator = True,
                  p_stake_amount = 10, p_has_paid = True\<rparr>],
      games = [], next_uuid = 2\<rparr>
   = (Inr (\<lparr>r_id = 0, r_code = code, r_creator_side = s,
             r_stake_amount = 10, r_total_pot = 20, r_status = full,
             r_server_seed = seed, r_client_seed = Some (generateClientSeed bytes16),
             r_nonce = 0\<rparr>,
           \<lparr>p_id = 2, p_room_id = 0, p_socket_id = ''sockB'', p_name = ''Player sock'',
            p_side = (if s = heads then tails else heads), p_is_creator = False,
            p_stake_amount = 10, p_has_paid = True\<rparr>),
      \<lparr>rooms = [\<lparr>r_id = 0, r_code = code, r_creator_side = s,
                 r_stake_amount = 10, r_total_pot = 20, r_status = full,
                 r_server_seed = seed, r_client_seed = Some (generateClientSeed bytes16),
                 r_nonce = 0\<rparr>],
       players = [\<lparr>p_id = 1, p_room_id = 0, p_socket_id = ''sockA'',
                   p_name = ''Player sock'', p_side = s, p_is_creator = True,
                   p_stake_amount = 10, p_has_paid = True\<rparr>,
                  \<lparr>p_id = 2, p_room_id = 0, p_socket_id = ''sockB'', p_name = ''Player sock'',
                   p_side = (if s = heads then tails else heads), p_is_creator = False,
                   p_stake_amount = 10, p_has_paid = True\<rparr>],
       games = [], next_uuid = 3\<rparr>)"
  by (cases s)
    (simp_all add: joinRoom_def single_def room_players_def insert_players_def
      update_rooms_def no_faults_def player_name_def FIXED_STAKE_def Let_def)

lemma generateClientSeed_nonempty: "generateClientSeed (b # bs) \<noteq> []"
  by (simp add: generateClientSeed_def hex_byte_def)

lemma joiner_wins_first_flip:
  fixes picks :: "nat \<Rightarrow> nat \<Rightarrow> nat" and bytes32 bytes16 :: "8 word list" and s :: CoinSide
  defines "fair \<equiv> generateResult (generateServerSeed bytes32) (generateClientSeed bytes16) (0 + 1)"
  defines "creator \<equiv> \<lparr>p_id = 1, p_room_id = 0, p_socket_id = ''sockA'',
                       p_name = ''Player sock'', p_side = s, p_is_creator = True,
                       p_stake_amount = 10, p_has_paid = True\<rparr>"
  defines "joiner \<equiv> \<lparr>p_id = 2, p_room_id = 0, p_socket_id = ''sockB'', p_name = ''Player sock'',
                      p_side = (if s = heads then tails else heads), p_is_creator = False,
                      p_stake_amount = 10, p_has_paid = True\<rparr>"
  assumes seed: "bytes16 \<noteq> []" and lose: "result fair \<noteq> s"
  shows "\<exists>room game.
           snd (flipCoin no_faults 0
             (snd (joinRoom no_faults bytes16
                     \<lparr>j_code = generateRoomCode (picks 0), j_playerName = None\<rparr> ''sockB''
               (snd (createRoom no_faults picks bytes32 \<lparr>c_side = s, c_playerName = None\<rparr>
                       ''sockA'' empty_database)))))
           = \<lparr>rooms = [room], players = [creator, joiner], games = [game], next_uuid = 4\<rparr>
         \<and> g_winner_player_id game = 2"
proof -
  let ?room = "\<lparr>r_id = 0, r_code = generateRoomCode (picks 0), r_creator_side = s,
                 r_stake_amount = 10, r_total_pot = 20, r_status = full,
                 r_server_seed = generateServerSeed bytes32,
                 r_client_seed = Some (generateClientSeed bytes16), r_nonce = 0\<rparr>"
  let ?d2 = "\<lparr>rooms = [?room], players = [creator, joiner], games = [], next_uuid = 3\<rparr>"
  have d2: "snd (joinRoom no_faults bytes16
                     \<lparr>j_code = generateRoomCode (picks 0), j_playerName = None\<rparr> ''sockB''
               (snd (createRoom no_faults picks bytes32 \<lparr>c_side = s, c_playerName = None\<rparr>
                       ''sockA'' empty_database))) = ?d2"
    unfolding first_room snd_conv second_player creator_def joiner_def by simp
  have sel: "single (filter (\<lambda>r. r_id r = 0) (rooms ?d2)) = Some ?room"
    by (simp add: single_def)
  have st: "r_status ?room = full"
    by simp
  have cs: "r_client_seed ?room = Some (generateClientSeed bytes16)"
    by simp
  have ne: "generateClientSeed bytes16 \<noteq> []"
    using seed generateClientSeed_nonempty by (cases bytes16) simp_all
  have ps: "room_players ?d2 0 = [creator, joiner]"
    by (simp add: room_players_def creator_def joiner_def)
  have sides: "p_side creator \<noteq> p_side joiner"
    by (cases s) (simp_all add: creator_def joiner_def)
  have ex: "list_ex (\<lambda>r. r_id r = 0) (rooms ?d2)"
    by simp
  have nf: "\<not> no_faults FlipCoin_insert_game"
    by (simp add: no_faults_def)
  have w: "(if p_side creator = result fair then creator else joiner) = joiner"
    using lose by (auto simp: creator_def)
  note run = flipCoin_resolves[where fl = no_faults, OF flip_room_full[OF sel st] cs ne ps sides ex nf]
  show ?thesis
    unfolding d2 run snd_conv
    using lose lose[symmetric]
    by (intro exI conjI) (simp add: fair_def creator_def joiner_def)+
qed


lemma winner_stays_reachable:
  "\<exists>db player. reachable db
     \<and> single (filter (\<lambda>p. p_socket_id p = ''sockB'') (players db)) = Some player
     \<and> \<not> p_is_creator player
     \<and> removePlayer ''sockB'' db = db
     \<and> player \<in> set (players (removePlayer ''sockB'' db))"
proof -
  define s where "s = (if result (generateResult (generateServerSeed [1, 2, 3])
                            (generateClientSeed [7, 8]) (0 + 1)) = heads then tails else heads)"
  define db where "db = snd (flipCoin no_faults 0
             (snd (joinRoom no_faults [7, 8]
                     \<lparr>j_code = generateRoomCode (\<lambda>i. i), j_playerName = None\<rparr> ''sockB''
               (snd (createRoom no_faults (\<lambda>a i. i) [1, 2, 3] \<lparr>c_side = s, c_playerName = None\<rparr>
                       ''sockA'' empty_database)))))"
  let ?joiner = "\<lparr>p_id = 2, p_room_id = 0, p_socket_id = ''sockB'', p_name = ''Player sock'',
                  p_side = (if s = heads then tails else heads), p_is_creator = False,
                  p_stake_amount = 10, p_has_paid = True\<rparr>"
  have r: "reachable db"
    unfolding db_def by (intro reachable.intros)
  have lose: "result (generateResult (generateServerSeed [1, 2, 3])
                (generateClientSeed [7, 8]) (0 + 1)) \<noteq> s"
    unfolding s_def using other_side_differs by metis
  from joiner_wins_first_flip[where picks = "\<lambda>a i. i" and ?bytes32.0 = "[1, 2, 3]"
      and ?bytes16.0 = "[7, 8]" and s = s, OF _ lose]
  obtain room game where
    shape: "db = \<lparr>rooms = [room],
                 players = [\<lparr>p_id = 1, p_room_id = 0, p_socket_id = ''sockA'',
                             p_name = ''Player sock'', p_side = s, p_is_creator = True,
                             p_stake_amount = 10, p_has_paid = True\<rparr>, ?joiner],
                 games = [game], next_uuid = 4\<rparr>"
    and won: "g_winner_player_id game = 2"
    unfolding db_def by auto
  have sel: "single (filter (\<lambda>p. p_socket_id p = ''sockB'') (players db)) = Some ?joiner"
    by (simp add: shape single_def)
  have nc: "\<not> p_is_creator ?joiner"
    by simp
  have same: "removePlayer ''sockB'' db = db"
    unfolding removePlayer_other[OF sel nc] by (simp add: shape won)
  have "?joiner \<in> set (players db)"
    by (simp add: shape)
  with r sel nc same show ?thesis
    by (intro exI[of _ db] exI[of _ ?joiner]) simp
qed


text \<open>The two cases of \<open>removePlayer\<close> that do what the data model says.\<close>

lemma removePlayer_creator:
  assumes "store_ok db"
    and "single (filter (\<lambda>p. p_socket_id p = socketId) (players db)) = Some player"
    and "p_is_creator player"
  shows "removePlayer socketId db
           = db\<lparr>rooms := filter (\<lambda>r. r_id r \<noteq> p_room_id player) (rooms db),
                players := filter (\<lambda>p. p_room_id p \<noteq> p_room_id player) (players db),
                games := filter (\<lambda>g. g_room_id g \<noteq> p_room_id player) (games db)\<rparr>"
proof -
  have sel: "filter (\<lambda>p. p_socket_id p = socketId) (players db) = [player]"
    using assms(2) by (simp add: single_Some_iff)
  have "removePlayer socketId db = delete_rooms (p_room_id player) (delete_players socketId db)"
    using assms(3) by (simp add: removePlayer_def assms(2) Let_def)
  then show ?thesis
    by (simp only: creator_removed_effect[OF assms(1) sel])
qed

lemma removePlayer_other_not_winner:
  assumes "single (filter (\<lambda>p. p_socket_id p = socketId) (players db)) = Some player"
    and "\<not> p_is_creator player"
    and "\<not> list_ex (\<lambda>g. g_winner_player_id g = p_id player) (games db)"
  shows "removePlayer socketId db
           = db\<lparr>players := filter (\<lambda>p. p_socket_id p \<noteq> socketId) (players db)\<rparr>"
  using assms(3) by (simp add: removePlayer_other[OF assms(1,2)])

text \<open>
  C6 fails for a joiner who has won a game. At the example store (room 0 completed,
  creator 1, joiner 2, one game won by player 2) the player row of the joiner matches
  the connection id and is not the creator's; the delete of the row is rejected by the
  reference from the game, the service ignores the error, and \<open>removePlayer\<close> returns
  the store unchanged, with the joiner still in it. A store of this shape is reached by
  createRoom, joinRoom and one flipCoin.
\<close>

theorem removePlayer_winner_stays:
  "single (filter (\<lambda>p. p_socket_id p = ''sockB'') (players demo_db_played)) = Some demo_joiner
   \<and> p_is_creator demo_joiner = False
   \<and> removePlayer ''sockB'' demo_db_played = demo_db_played
   \<and> demo_joiner \<in> set (players (removePlayer ''sockB'' demo_db_played))
   \<and> (\<exists>db player. reachable db
         \<and> single (filter (\<lambda>p. p_socket_id p = ''sockB'') (players db)) = Some player
         \<and> p_is_creator player = False
         \<and> removePlayer ''sockB'' db = db
         \<and> player \<in> set (players (removePlayer ''sockB'' db)))"
proof -
  have sel: "single (filter (\<lambda>p. p_socket_id p = ''sockB'') (players demo_db_played)) = Some demo_joiner"
    by (simp add: single_def demo_db_played_def demo_db_def demo_creator_def demo_joiner_def)
  have nc: "\<not> p_is_creator demo_joiner"
    by (simp add: demo_joiner_def)
  have won: "list_ex (\<lambda>g. g_winner_player_id g = p_id demo_joiner) (games demo_db_played)"
    by (simp add: demo_db_played_def demo_db_def demo_game_def demo_joiner_def)
  have same: "removePlayer ''sockB'' demo_db_played = demo_db_played"
    by (simp add: removePlayer_other[OF sel nc] won)
  have "demo_joiner \<in> set (players demo_db_played)"
    by (simp add: demo_db_played_def demo_db_def)
  with sel nc same winner_stays_reachable show ?thesis
    by simp
qed

end
